theory Spec2Isabelle
  imports Complex_Main
begin

section \<open>JavaScript numbers\<close>

text \<open>
  Every quantity of \<^verbatim>\<open>index.tsx\<close> is a JavaScript \<^verbatim>\<open>number\<close>. The model keeps the
  three non-finite values apart from the finite ones, so that \<^verbatim>\<open>Number.isFinite\<close>,
  a division by zero and the logarithm of a non-positive number are branches of the
  model and not accidents of HOL's total functions. Finite values are real numbers.
  The operators \<^verbatim>\<open>+ - * /\<close> and \<^verbatim>\<open>Math.log\<close> are exact on them: their rounding and
  overflow are not modelled, and zero has no sign (a division by zero divides by
  \<^verbatim>\<open>+0\<close>). \<^verbatim>\<open>Math.hypot\<close> is rounded as the engine rounds it, because the order of two
  nearly equal distances decides whether a source contributes.
\<close>

datatype number = Fin real | PInf | NInf | NaN

instantiation number :: "{plus, uminus, minus, times, inverse, ord}"
begin

fun plus_number :: "number \<Rightarrow> number \<Rightarrow> number" where
  "plus_number (Fin a) (Fin b) = Fin (a + b)"
| "plus_number NaN _ = NaN"
| "plus_number _ NaN = NaN"
| "plus_number PInf NInf = NaN"
| "plus_number NInf PInf = NaN"
| "plus_number PInf _ = PInf"
| "plus_number _ PInf = PInf"
| "plus_number NInf _ = NInf"
| "plus_number _ NInf = NInf"

fun uminus_number :: "number \<Rightarrow> number" where
  "uminus_number (Fin a) = Fin (- a)"
| "uminus_number PInf = NInf"
| "uminus_number NInf = PInf"
| "uminus_number NaN = NaN"

definition minus_number :: "number \<Rightarrow> number \<Rightarrow> number" where
  "minus_number a b = a + (- b)"

fun times_number :: "number \<Rightarrow> number \<Rightarrow> number" where
  "times_number (Fin a) (Fin b) = Fin (a * b)"
| "times_number NaN _ = NaN"
| "times_number _ NaN = NaN"
| "times_number PInf (Fin b) = (if 0 < b then PInf else if b < 0 then NInf else NaN)"
| "times_number NInf (Fin b) = (if 0 < b then NInf else if b < 0 then PInf else NaN)"
| "times_number (Fin a) PInf = (if 0 < a then PInf else if a < 0 then NInf else NaN)"
| "times_number (Fin a) NInf = (if 0 < a then NInf else if a < 0 then PInf else NaN)"
| "times_number PInf PInf = PInf"
| "times_number PInf NInf = NInf"
| "times_number NInf PInf = NInf"
| "times_number NInf NInf = PInf"

fun divide_number :: "number \<Rightarrow> number \<Rightarrow> number" where
  "divide_number (Fin a) (Fin b) =
     (if b = 0 then (if 0 < a then PInf else if a < 0 then NInf else NaN)
      else Fin (a / b))"
| "divide_number NaN _ = NaN"
| "divide_number _ NaN = NaN"
| "divide_number (Fin a) PInf = Fin 0"
| "divide_number (Fin a) NInf = Fin 0"
| "divide_number PInf (Fin b) = (if 0 \<le> b then PInf else NInf)"
| "divide_number NInf (Fin b) = (if 0 \<le> b then NInf else PInf)"
| "divide_number PInf PInf = NaN"
| "divide_number PInf NInf = NaN"
| "divide_number NInf PInf = NaN"
| "divide_number NInf NInf = NaN"

definition inverse_number :: "number \<Rightarrow> number" where
  "inverse_number a = Fin 1 div a"

fun less_number :: "number \<Rightarrow> number \<Rightarrow> bool" where
  "less_number (Fin a) (Fin b) = (a < b)"
| "less_number NaN _ = False"
| "less_number _ NaN = False"
| "less_number NInf NInf = False"
| "less_number NInf _ = True"
| "less_number PInf _ = False"
| "less_number (Fin a) PInf = True"
| "less_number (Fin a) NInf = False"

fun less_eq_number :: "number \<Rightarrow> number \<Rightarrow> bool" where
  "less_eq_number (Fin a) (Fin b) = (a \<le> b)"
| "less_eq_number NaN _ = False"
| "less_eq_number _ NaN = False"
| "less_eq_number NInf _ = True"
| "less_eq_number PInf PInf = True"
| "less_eq_number PInf _ = False"
| "less_eq_number (Fin a) PInf = True"
| "less_eq_number (Fin a) NInf = False"

instance ..

end

text \<open>
  In JavaScript \<^verbatim>\<open>a > b\<close> is \<open>b < a\<close> and \<^verbatim>\<open>a >= b\<close> is \<open>b \<le> a\<close>: every comparison
  with \<open>NaN\<close> is false, so \<open>\<le>\<close> is not the negation of \<open>>\<close>.
\<close>

text \<open>\<^verbatim>\<open>Number.isFinite\<close>.\<close>

fun Number_isFinite :: "number \<Rightarrow> bool" where
  "Number_isFinite (Fin a) = True"
| "Number_isFinite _ = False"

text \<open>\<^verbatim>\<open>ToBoolean\<close> of a number, as \<^verbatim>\<open>||\<close>, \<^verbatim>\<open>&&\<close> and \<^verbatim>\<open>if\<close> apply it: zero and
  \<open>NaN\<close> are falsy.\<close>

fun truthy :: "number \<Rightarrow> bool" where
  "truthy (Fin a) = (a \<noteq> 0)"
| "truthy NaN = False"
| "truthy _ = True"

text \<open>\<^verbatim>\<open>a || d\<close> on numbers.\<close>

definition or_else :: "number \<Rightarrow> number \<Rightarrow> number" where
  "or_else a d = (if truthy a then a else d)"

fun Math_abs :: "number \<Rightarrow> number" where
  "Math_abs (Fin a) = Fin \<bar>a\<bar>"
| "Math_abs PInf = PInf"
| "Math_abs NInf = PInf"
| "Math_abs NaN = NaN"

fun Math_max :: "number \<Rightarrow> number \<Rightarrow> number" where
  "Math_max (Fin a) (Fin b) = Fin (max a b)"
| "Math_max NaN _ = NaN"
| "Math_max _ NaN = NaN"
| "Math_max PInf _ = PInf"
| "Math_max _ PInf = PInf"
| "Math_max NInf b = b"
| "Math_max a NInf = a"

text \<open>
  Rounding of a real number to the nearest double: 53 significant bits, ties to the even
  significand. The exponent is not bounded, so neither overflow nor underflow occurs.
\<close>

definition round_to_even :: "real \<Rightarrow> int" where
  "round_to_even q =
     (let f = \<lfloor>q\<rfloor>
      in if q - of_int f < 1 / 2 then f
         else if 1 / 2 < q - of_int f then f + 1
         else if even f then f else f + 1)"

definition round_double :: "real \<Rightarrow> real" where
  "round_double x =
     (if x = 0 then 0
      else let u = 2 powr of_int (\<lfloor>log 2 \<bar>x\<bar>\<rfloor> - 52)
           in of_int (round_to_even (x / u)) * u)"

text \<open>
  \<^verbatim>\<open>Math.hypot\<close> of two finite numbers. ECMAScript leaves its accuracy to the engine;
  this is the algorithm of the V8 engine (Chrome, Node.js): the absolute values are
  divided by the largest of them, their squares are added by Kahan summation, and the
  square root of the sum is multiplied by the largest; every operation is rounded. The
  result is not monotone in the arguments: of two second arguments two units in the last
  place apart, the smaller can give the larger result.
\<close>

definition kahan_step :: "real \<Rightarrow> real \<times> real \<Rightarrow> real \<Rightarrow> real \<times> real" where
  "kahan_step max' acc absValue =
     (case acc of (sum_acc, compensation) \<Rightarrow>
        let n = round_double (absValue / max');
            summand = round_double (round_double (n * n) - compensation);
            preliminary = round_double (sum_acc + summand);
            compensation' = round_double (round_double (preliminary - sum_acc) - summand)
        in (preliminary, compensation'))"

definition hypot_double :: "real \<Rightarrow> real \<Rightarrow> real" where
  "hypot_double a b =
     (let absValues = [\<bar>a\<bar>, \<bar>b\<bar>];
          max' = foldl (\<lambda>m absValue. if m < absValue then absValue else m) 0 absValues
      in if max' = 0 then 0
         else
           let (sum_acc, compensation) = foldl (kahan_step max') (0, 0) absValues
           in round_double (round_double (sqrt sum_acc) * max'))"

text \<open>\<^verbatim>\<open>Math.hypot\<close>: an infinite argument gives \<open>+Infinity\<close> even beside a \<open>NaN\<close>.\<close>

fun Math_hypot :: "number \<Rightarrow> number \<Rightarrow> number" where
  "Math_hypot (Fin a) (Fin b) = Fin (hypot_double a b)"
| "Math_hypot PInf _ = PInf"
| "Math_hypot NInf _ = PInf"
| "Math_hypot _ PInf = PInf"
| "Math_hypot _ NInf = PInf"
| "Math_hypot NaN _ = NaN"
| "Math_hypot _ NaN = NaN"

text \<open>
  Every number the program holds is a double; the finite numbers of the model that are
  doubles are the fixed points of the rounding.
\<close>

definition is_double :: "number \<Rightarrow> bool" where
  "is_double a = (case a of Fin r \<Rightarrow> round_double r = r | _ \<Rightarrow> True)"

fun Math_log :: "number \<Rightarrow> number" where
  "Math_log (Fin a) = (if a < 0 then NaN else if a = 0 then NInf else Fin (ln a))"
| "Math_log PInf = PInf"
| "Math_log NInf = NaN"
| "Math_log NaN = NaN"

definition Math_PI :: number where
  "Math_PI = Fin pi"

section \<open>Units and the data model\<close>

text \<open>\<^verbatim>\<open>CONVERSIONS\<close> (lines 10-19), the three that the calculation path uses.\<close>

definition ftToM :: "number \<Rightarrow> number" where
  "ftToM ft = ft * Fin (3048 / 10000)"

definition inToM :: "number \<Rightarrow> number" where
  "inToM inch = inch * Fin (254 / 10000)"

definition FtoC :: "number \<Rightarrow> number" where
  "FtoC f = (f - Fin 32) * Fin 5 / Fin 9"

datatype PipeOrientation = parallel | perpendicular

datatype PipeRole = heat_source | affected_pipe

text \<open>
  \<^verbatim>\<open>interface Pipe\<close> (lines 43-59) without the \<^verbatim>\<open>element\<close> handle of the form row.
  \<open>temp\<close> is optional in the source.
\<close>

record Pipe =
  pipe_id :: int
  pipe_name :: string
  role :: PipeRole
  orientation :: PipeOrientation
  pipe_x :: number
  pipe_y :: number
  pipe_z :: number
  temp :: "number option"
  od :: number
  thickness :: number
  k_pipe :: number
  ins_thickness :: number
  k_ins :: number
  bed_thickness :: number
  k_bedding :: number

text \<open>\<^verbatim>\<open>CalculationSoilLayer\<close> (lines 61-66).\<close>

record SoilLayer =
  layer_k :: number
  layer_thickness :: number
  depth_top :: number
  depth_bottom :: number

section \<open>Soil model\<close>

text \<open>\<^verbatim>\<open>soilLayers[0]?.k || 1.5\<close>, the fallback on lines 662, 668 and 682.\<close>

definition first_layer_k_or_default :: "SoilLayer list \<Rightarrow> number" where
  "first_layer_k_or_default soilLayers =
     (case soilLayers of [] \<Rightarrow> Fin (15 / 10) | layer # _ \<Rightarrow> or_else (layer_k layer) (Fin (15 / 10)))"

text \<open>\<^verbatim>\<open>getSoilKAtPoint\<close> (lines 807-815): the loop, then the fallback.\<close>

fun layer_containing :: "number \<Rightarrow> SoilLayer list \<Rightarrow> SoilLayer option" where
  "layer_containing z [] = None"
| "layer_containing z (layer # rest) =
     (if depth_top layer \<le> z \<and> z < depth_bottom layer then Some layer
      else layer_containing z rest)"

definition getSoilKAtPoint :: "number \<Rightarrow> number \<Rightarrow> SoilLayer list \<Rightarrow> number" where
  "getSoilKAtPoint x_unused z soilLayers =
     (case layer_containing z soilLayers of
        Some layer \<Rightarrow> layer_k layer
      | None \<Rightarrow> if 0 < length soilLayers then layer_k (last soilLayers) else Fin (15 / 10))"

text \<open>
  \<^verbatim>\<open>getEffectiveSoilKForPipe\<close> (lines 646-663). Its argument is a \<^verbatim>\<open>Partial<Pipe>\<close>, of
  which it reads four fields, each \<^verbatim>\<open>|| 0\<close>.
\<close>

record PartialPipe =
  part_od :: "number option"
  part_ins_thickness :: "number option"
  part_bed_thickness :: "number option"
  part_z :: "number option"

definition opt_or_zero :: "number option \<Rightarrow> number" where
  "opt_or_zero v = (case v of None \<Rightarrow> Fin 0 | Some a \<Rightarrow> or_else a (Fin 0))"

fun layers_involved :: "number \<Rightarrow> number \<Rightarrow> SoilLayer list \<Rightarrow> number \<times> nat \<Rightarrow> number \<times> nat" where
  "layers_involved pipeCenterZ r_outer [] acc = acc"
| "layers_involved pipeCenterZ r_outer (layer # rest) (totalK, layersInvolved) =
     layers_involved pipeCenterZ r_outer rest
       (if depth_top layer < pipeCenterZ + r_outer \<and> pipeCenterZ - r_outer < depth_bottom layer
        then (totalK + layer_k layer, layersInvolved + 1)
        else (totalK, layersInvolved))"

definition getEffectiveSoilKForPipe :: "PartialPipe \<Rightarrow> SoilLayer list \<Rightarrow> number" where
  "getEffectiveSoilKForPipe pipe soilLayers =
     (let r_outer = opt_or_zero (part_od pipe) / Fin 2 + opt_or_zero (part_ins_thickness pipe)
                      + opt_or_zero (part_bed_thickness pipe);
          pipeCenterZ = opt_or_zero (part_z pipe);
          (totalK, layersInvolved) = layers_involved pipeCenterZ r_outer soilLayers (Fin 0, 0)
      in if 0 < layersInvolved then totalK / Fin (real layersInvolved)
         else first_layer_k_or_default soilLayers)"

definition partial_of :: "Pipe \<Rightarrow> PartialPipe" where
  "partial_of pipe =
     \<lparr>part_od = Some (od pipe), part_ins_thickness = Some (ins_thickness pipe),
      part_bed_thickness = Some (bed_thickness pipe), part_z = Some (pipe_z pipe)\<rparr>"

text \<open>\<^verbatim>\<open>getEffectiveKForPath\<close> (lines 665-685): 100 midpoint samples along the path.\<close>

record Point =
  pt_x :: number
  pt_z :: number

definition steps :: nat where
  "steps = 100"

definition path_step :: "number \<Rightarrow> number \<Rightarrow> number \<Rightarrow> SoilLayer list \<Rightarrow> number \<Rightarrow> nat \<Rightarrow> number" where
  "path_step length' z1 z2 soilLayers totalResistance i =
     (let t = (Fin (real i) + Fin (5 / 10)) / Fin (real steps);
          z = z1 + t * (z2 - z1);
          k = getSoilKAtPoint (Fin 0) z soilLayers
      in if Fin 0 < k then totalResistance + (length' / Fin (real steps)) / k
         else totalResistance)"

definition getEffectiveKForPath :: "Point \<Rightarrow> Point \<Rightarrow> SoilLayer list \<Rightarrow> number" where
  "getEffectiveKForPath p1 p2 soilLayers =
     (let x1 = pt_x p1; z1 = pt_z p1; x2 = pt_x p2; z2 = pt_z p2;
          length' = Math_hypot (x2 - x1) (z2 - z1)
      in if length' < Fin (1 / 10 ^ 6) then first_layer_k_or_default soilLayers
         else
           let totalResistance = foldl (path_step length' z1 z2 soilLayers) (Fin 0) [0..<steps]
           in if totalResistance = Fin 0 then first_layer_k_or_default soilLayers
              else length' / totalResistance)"

section \<open>Resistance solver and pipe-to-pipe superposition\<close>

text \<open>\<^verbatim>\<open>SourceCalculation\<close> (lines 72-81).\<close>

record SourceCalculation =
  sc_pipeId :: int
  sc_pipeName :: string
  R_pipe :: number
  R_ins :: number
  R_bed :: number
  R_soil :: number
  R_total :: number
  sc_Q :: number

text \<open>
  A read of the optional \<open>temp\<close> under \<^verbatim>\<open>pipe.temp!\<close>: the assertion is erased at run
  time, and \<^verbatim>\<open>undefined\<close> in arithmetic is \<open>NaN\<close>.
\<close>

definition temp_asserted :: "Pipe \<Rightarrow> number" where
  "temp_asserted pipe = (case temp pipe of None \<Rightarrow> NaN | Some t \<Rightarrow> t)"

text \<open>Step 1 of \<^verbatim>\<open>calculateTemperatures\<close> (lines 692-712), for one heat source.\<close>

definition sourceCalc :: "SoilLayer list \<Rightarrow> number \<Rightarrow> Pipe \<Rightarrow> SourceCalculation" where
  "sourceCalc soilLayers T_soil_C pipe =
     (let T_pipe = temp_asserted pipe;
          r_pipe_outer = od pipe / Fin 2;
          r_pipe_inner = r_pipe_outer - thickness pipe;
          r_ins_outer = r_pipe_outer + ins_thickness pipe;
          r_bed_outer = r_ins_outer + bed_thickness pipe;
          R_pipe' = (if Fin 0 < k_pipe pipe \<and> Fin 0 < r_pipe_inner
                     then Math_log (r_pipe_outer / r_pipe_inner) / (Fin 2 * Math_PI * k_pipe pipe)
                     else Fin 0);
          R_ins' = (if Fin 0 < k_ins pipe
                    then Math_log (r_ins_outer / r_pipe_outer) / (Fin 2 * Math_PI * k_ins pipe)
                    else Fin 0);
          R_bed' = (if Fin 0 < k_bedding pipe
                    then Math_log (r_bed_outer / r_ins_outer) / (Fin 2 * Math_PI * k_bedding pipe)
                    else Fin 0);
          k_eff_soil = getEffectiveSoilKForPipe (partial_of pipe) soilLayers;
          R_soil' = (if Fin 0 < k_eff_soil
                     then Math_log ((Fin 2 * pipe_z pipe) / r_bed_outer) / (Fin 2 * Math_PI * k_eff_soil)
                     else Fin 0);
          R_total' = R_pipe' + R_ins' + R_bed' + R_soil';
          Q = (if Fin 0 < R_total' then (T_pipe - T_soil_C) / R_total' else Fin 0)
      in \<lparr>sc_pipeId = pipe_id pipe, sc_pipeName = pipe_name pipe, R_pipe = R_pipe', R_ins = R_ins',
          R_bed = R_bed', R_soil = R_soil', R_total = R_total', sc_Q = Q\<rparr>)"

text \<open>\<^verbatim>\<open>InteractionCalculation\<close> and \<^verbatim>\<open>AffectedPipeCalculation\<close> (lines 83-97).\<close>

record InteractionCalculation =
  sourcePipeName :: string
  k_eff_path :: number
  d_real :: number
  d_image :: number
  tempRise :: number

record AffectedPipeCalculation =
  ap_pipeId :: int
  ap_pipeName :: string
  interactions :: "InteractionCalculation list"
  totalTempRise :: number
  finalTemp :: number

text \<open>
  The two orientation cases of the body of \<^verbatim>\<open>sourcesWithQ.forEach\<close> (lines 729-760):
  the real distance before clamping, the image distance and the path conductivity.
\<close>

definition pair_geometry :: "SoilLayer list \<Rightarrow> Pipe \<Rightarrow> Pipe \<Rightarrow> number \<times> number \<times> number" where
  "pair_geometry soilLayers affectedPipe source =
     (let z_s = pipe_z source;
          z_a = pipe_z affectedPipe
      in if orientation source = orientation affectedPipe then
           let horiz_s = (if orientation source = parallel then pipe_x source else pipe_y source);
               horiz_a = (if orientation affectedPipe = parallel then pipe_x affectedPipe
                          else pipe_y affectedPipe);
               d_horizontal = horiz_s - horiz_a;
               d_vertical_real = z_s - z_a;
               d_vertical_image = z_s + z_a
           in (Math_hypot d_horizontal d_vertical_real,
               Math_hypot d_horizontal d_vertical_image,
               getEffectiveKForPath \<lparr>pt_x = horiz_s, pt_z = z_s\<rparr> \<lparr>pt_x = horiz_a, pt_z = z_a\<rparr>
                 soilLayers)
         else (Math_abs (z_s - z_a), z_s + z_a, getSoilKAtPoint (Fin 0) z_a soilLayers))"

text \<open>\<^verbatim>\<open>r_source_outer\<close> (line 724).\<close>

definition r_source_outer :: "Pipe \<Rightarrow> number" where
  "r_source_outer source = od source / Fin 2 + ins_thickness source + bed_thickness source"

text \<open>
  The body of \<^verbatim>\<open>sourcesWithQ.forEach\<close> (lines 721-769) for one source, a pipe paired
  with its \<open>Q\<close>; \<open>None\<close> is the early \<^verbatim>\<open>return\<close> for the affected pipe itself.
\<close>

definition interaction :: "SoilLayer list \<Rightarrow> Pipe \<Rightarrow> Pipe \<times> number \<Rightarrow> InteractionCalculation option" where
  "interaction soilLayers affectedPipe sourceQ =
     (case sourceQ of (source, Q) \<Rightarrow>
      if pipe_id source = pipe_id affectedPipe then None
      else
        let (d_real0, d_image', k_eff_path') = pair_geometry soilLayers affectedPipe source;
            d_real' = Math_max d_real0 (r_source_outer source);
            tempRise' = (if Fin 0 < k_eff_path' \<and> d_real' < d_image'
                         then (Q / (Fin 2 * Math_PI * k_eff_path')) * Math_log (d_image' / d_real')
                         else Fin 0)
        in Some \<lparr>sourcePipeName = pipe_name source, k_eff_path = k_eff_path', d_real = d_real',
                 d_image = d_image', tempRise = tempRise'\<rparr>)"

fun interactions_loop ::
  "SoilLayer list \<Rightarrow> Pipe \<Rightarrow> (Pipe \<times> number) list \<Rightarrow> number \<times> InteractionCalculation list
     \<Rightarrow> number \<times> InteractionCalculation list" where
  "interactions_loop soilLayers affectedPipe [] acc = acc"
| "interactions_loop soilLayers affectedPipe (sourceQ # rest) (totalTempRise', interactionCalcs) =
     interactions_loop soilLayers affectedPipe rest
       (case interaction soilLayers affectedPipe sourceQ of
          None \<Rightarrow> (totalTempRise', interactionCalcs)
        | Some c \<Rightarrow> (totalTempRise' + tempRise c, interactionCalcs @ [c]))"

text \<open>Step 2 of \<^verbatim>\<open>calculateTemperatures\<close> (lines 717-773), for one affected pipe.\<close>

definition affectedPipeCalc ::
  "SoilLayer list \<Rightarrow> number \<Rightarrow> (Pipe \<times> number) list \<Rightarrow> Pipe \<Rightarrow> AffectedPipeCalculation" where
  "affectedPipeCalc soilLayers T_soil_C sourcesWithQ affectedPipe =
     (let (totalTempRise', interactionCalcs) =
            interactions_loop soilLayers affectedPipe sourcesWithQ (Fin 0, [])
      in \<lparr>ap_pipeId = pipe_id affectedPipe, ap_pipeName = pipe_name affectedPipe,
          interactions = interactionCalcs, totalTempRise = totalTempRise',
          finalTemp = T_soil_C + totalTempRise'\<rparr>)"

text \<open>
  \<^verbatim>\<open>calculateTemperatures\<close> (lines 687-804) up to \<^verbatim>\<open>detailedCalculations\<close>: the source
  calculations and the affected-pipe calculations. The scene and the report are built from
  these and are not part of the model.
\<close>

definition calculateTemperatures ::
  "Pipe list \<Rightarrow> SoilLayer list \<Rightarrow> number \<Rightarrow> SourceCalculation list \<times> AffectedPipeCalculation list" where
  "calculateTemperatures pipes soilLayers T_soil_C =
     (let heatSources = filter (\<lambda>p. role p = heat_source) pipes;
          affectedPipes = filter (\<lambda>p. role p = affected_pipe) pipes;
          sourceCalcs = map (sourceCalc soilLayers T_soil_C) heatSources;
          sourcesWithQ = map (\<lambda>pipe. (pipe, sc_Q (sourceCalc soilLayers T_soil_C pipe))) heatSources;
          affectedPipeCalcs = map (affectedPipeCalc soilLayers T_soil_C sourcesWithQ) affectedPipes
      in (sourceCalcs, affectedPipeCalcs))"

section \<open>Field evaluator at a point\<close>

text \<open>
  The entries of \<^verbatim>\<open>SceneData.pipes\<close> (lines 144-157), and the three fields of
  \<^verbatim>\<open>SceneData\<close> that \<^verbatim>\<open>calculateTemperatureAtPoint\<close> reads; the others place the scene
  on the canvas.
\<close>

record ScenePipe =
  sp_id :: int
  sp_x :: number
  sp_y :: number
  sp_z :: number
  sp_orientation :: PipeOrientation
  r_pipe :: number
  r_ins :: number
  r_bed :: number
  sp_temp :: number
  isSource :: bool
  sp_name :: string
  sp_Q :: "number option"

record SceneData =
  scene_pipes :: "ScenePipe list"
  T_soil :: number
  layers :: "SoilLayer list"

text \<open>
  The pipe entries that \<^verbatim>\<open>createSceneData\<close> builds (lines 917-928) from a calculated
  pipe: the pipe, its final temperature and, for a heat source, its \<open>Q\<close>.
\<close>

definition scenePipe :: "Pipe \<Rightarrow> number \<Rightarrow> number option \<Rightarrow> ScenePipe" where
  "scenePipe p final Q =
     \<lparr>sp_id = pipe_id p, sp_x = pipe_x p, sp_y = pipe_y p, sp_z = pipe_z p,
      sp_orientation = orientation p,
      r_pipe = od p / Fin 2,
      r_ins = od p / Fin 2 + ins_thickness p,
      r_bed = od p / Fin 2 + ins_thickness p + bed_thickness p,
      sp_temp = final, isSource = (role p = heat_source), sp_name = pipe_name p, sp_Q = Q\<rparr>"

text \<open>\<^verbatim>\<open>distToCenter\<close>, computed the same way in both loops (lines 823-827, 851, 856).\<close>

definition distToCenter :: "number \<Rightarrow> number \<Rightarrow> ScenePipe \<Rightarrow> number" where
  "distToCenter x z pipe =
     (if sp_orientation pipe = parallel then Math_hypot (x - sp_x pipe) (z - sp_z pipe)
      else Math_hypot (Fin 0 - sp_y pipe) (z - sp_z pipe))"

text \<open>The truth value of the optional \<^verbatim>\<open>pipe.Q\<close>, and its value under \<^verbatim>\<open>Q!\<close>.\<close>

definition Q_truthy :: "ScenePipe \<Rightarrow> bool" where
  "Q_truthy pipe = (case sp_Q pipe of None \<Rightarrow> False | Some q \<Rightarrow> truthy q)"

definition Q_asserted :: "ScenePipe \<Rightarrow> number" where
  "Q_asserted pipe = (case sp_Q pipe of None \<Rightarrow> NaN | Some q \<Rightarrow> q)"

text \<open>The surface temperature returned in the annulus of a source (lines 833-836).\<close>

definition surface_temperature :: "number \<Rightarrow> SoilLayer list \<Rightarrow> ScenePipe \<Rightarrow> number" where
  "surface_temperature T_soil' layers' pipe =
     (let k_eff_soil =
            getEffectiveSoilKForPipe
              \<lparr>part_od = Some (r_bed pipe * Fin 2), part_ins_thickness = None,
               part_bed_thickness = None, part_z = Some (sp_z pipe)\<rparr> layers'
      in if k_eff_soil \<le> Fin 0 then T_soil'
         else
           let T_surface = T_soil' + (Q_asserted pipe / (Fin 2 * Math_PI * k_eff_soil))
                                      * Math_log ((Fin 2 * sp_z pipe) / r_bed pipe)
           in if Number_isFinite T_surface then T_surface else T_soil')"

text \<open>The first loop (lines 820-839): \<open>Some t\<close> is \<^verbatim>\<open>return t\<close>, \<open>None\<close> falls through.\<close>

fun inside_pipes :: "number \<Rightarrow> number \<Rightarrow> number \<Rightarrow> SoilLayer list \<Rightarrow> ScenePipe list \<Rightarrow> number option" where
  "inside_pipes x z T_soil' layers' [] = None"
| "inside_pipes x z T_soil' layers' (pipe # rest) =
     (let r_outer = r_bed pipe;
          dist = distToCenter x z pipe
      in if dist \<le> r_outer then
           if dist \<le> r_pipe pipe then Some (sp_temp pipe)
           else if isSource pipe \<and> Q_truthy pipe then Some (surface_temperature T_soil' layers' pipe)
           else inside_pipes x z T_soil' layers' rest
         else inside_pipes x z T_soil' layers' rest)"

text \<open>
  The two orientation cases of the second loop (lines 850-860): the clamped real distance,
  the image distance and the path conductivity.
\<close>

definition source_geometry ::
  "number \<Rightarrow> number \<Rightarrow> SoilLayer list \<Rightarrow> ScenePipe \<Rightarrow> number \<times> number \<times> number" where
  "source_geometry x z layers' source =
     (let r_outer_source = r_bed source
      in if sp_orientation source = parallel then
           (Math_max (Math_hypot (x - sp_x source) (z - sp_z source)) r_outer_source,
            Math_hypot (x - sp_x source) (z + sp_z source),
            getEffectiveKForPath \<lparr>pt_x = sp_x source, pt_z = sp_z source\<rparr> \<lparr>pt_x = x, pt_z = z\<rparr>
              layers')
         else
           (Math_max (Math_hypot (Fin 0 - sp_y source) (z - sp_z source)) r_outer_source,
            Math_hypot (Fin 0 - sp_y source) (z + sp_z source),
            getEffectiveKForPath \<lparr>pt_x = sp_y source, pt_z = sp_z source\<rparr>
              \<lparr>pt_x = Fin 0, pt_z = z\<rparr> layers'))"

text \<open>The body of the second loop (lines 844-868) for one heat source.\<close>

definition source_step :: "number \<Rightarrow> number \<Rightarrow> SoilLayer list \<Rightarrow> number \<Rightarrow> ScenePipe \<Rightarrow> number" where
  "source_step x z layers' totalTempRise' source =
     (let (d_real', d_image', k_eff_path') = source_geometry x z layers' source
      in if Fin 0 < k_eff_path' \<and> d_real' < d_image' \<and> Fin 0 < d_real' then
           let tempRise' = (Q_asserted source / (Fin 2 * Math_PI * k_eff_path'))
                             * Math_log (d_image' / d_real')
           in if Number_isFinite tempRise' then totalTempRise' + tempRise' else totalTempRise'
         else totalTempRise')"

text \<open>\<^verbatim>\<open>totalTempRise\<close> after the second loop (lines 841-868).\<close>

definition totalTempRise_at :: "number \<Rightarrow> number \<Rightarrow> SoilLayer list \<Rightarrow> ScenePipe list \<Rightarrow> number" where
  "totalTempRise_at x z layers' pipes =
     (let heatSources = filter (\<lambda>p. isSource p \<and> sp_Q p \<noteq> None) pipes
      in foldl (source_step x z layers') (Fin 0) heatSources)"

text \<open>\<^verbatim>\<open>calculateTemperatureAtPoint\<close> (lines 817-872).\<close>

definition calculateTemperatureAtPoint :: "number \<Rightarrow> number \<Rightarrow> SceneData \<Rightarrow> number" where
  "calculateTemperatureAtPoint x z sceneData =
     (let pipes = scene_pipes sceneData; T_soil' = T_soil sceneData; layers' = layers sceneData
      in case inside_pipes x z T_soil' layers' pipes of
           Some t \<Rightarrow> t
         | None \<Rightarrow>
             let totalTempRise' = totalTempRise_at x z layers' pipes;
                 finalTemp' = T_soil' + totalTempRise'
             in if Number_isFinite finalTemp' then finalTemp' else T_soil')"

text \<open>
  The condition under which the first loop returns at a pipe (lines 829-832): the point is
  within the pipe's bedding radius, and within its bare radius or the pipe is a source
  with a truthy \<open>Q\<close>.
\<close>

definition answers :: "number \<Rightarrow> number \<Rightarrow> ScenePipe \<Rightarrow> bool" where
  "answers x z pipe =
     (distToCenter x z pipe \<le> r_bed pipe
      \<and> (distToCenter x z pipe \<le> r_pipe pipe \<or> (isSource pipe \<and> Q_truthy pipe)))"

section \<open>Gathering the form and starting a calculation\<close>

text \<open>
  A pipe row of the form, as \<^verbatim>\<open>validatePipeRow\<close> and \<^verbatim>\<open>getPipes\<close> read it: each numeric
  field is the result of \<^verbatim>\<open>parseFloat\<close> on the field's text, which is \<open>NaN\<close> for a
  blank or unparseable field.
\<close>

record PipeRow =
  row_data_id :: int
  row_pipe_name :: string
  row_pipe_role :: PipeRole
  row_pipe_orientation :: PipeOrientation
  row_pipe_x :: number
  row_pipe_y :: number
  row_pipe_z :: number
  row_pipe_od :: number
  row_pipe_thickness :: number
  row_pipe_insulation_thickness :: number
  row_pipe_bedding_thickness :: number
  row_pipe_material :: number
  row_pipe_insulation_material :: number
  row_pipe_bedding_material :: number
  row_pipe_temp :: number

text \<open>\<^verbatim>\<open>validatePipeRow\<close> (lines 537-559): \<open>False\<close> also shows the message
  "Pipe depth (Z) must be greater than the total radius (OD/2 + insulation + bedding)."\<close>

definition validatePipeRow :: "PipeRow \<Rightarrow> bool" where
  "validatePipeRow pipeRow =
     (let z = or_else (row_pipe_z pipeRow) (Fin 0);
          od' = or_else (row_pipe_od pipeRow) (Fin 0);
          ins = or_else (row_pipe_insulation_thickness pipeRow) (Fin 0);
          bed = or_else (row_pipe_bedding_thickness pipeRow) (Fin 0);
          z_m = ftToM z;
          totalRadius_m = inToM (od' / Fin 2 + ins + bed)
      in if z_m < totalRadius_m then False else True)"

text \<open>The body of the loop of \<^verbatim>\<open>getPipes\<close> (lines 600-643) for one row.\<close>

definition getPipe :: "PipeRow \<Rightarrow> Pipe" where
  "getPipe el =
     (let rawX = or_else (row_pipe_x el) (Fin 0);
          rawY = or_else (row_pipe_y el) (Fin 0);
          rawZ = or_else (row_pipe_z el) (Fin 0);
          rawOD = or_else (row_pipe_od el) (Fin 0);
          rawThickness = or_else (row_pipe_thickness el) (Fin 0);
          rawInsThickness = or_else (row_pipe_insulation_thickness el) (Fin 0);
          rawBedThickness = or_else (row_pipe_bedding_thickness el) (Fin 0);
          kPipe = or_else (row_pipe_material el) (Fin 0);
          kIns = or_else (row_pipe_insulation_material el) (Fin 0);
          kBedding = or_else (row_pipe_bedding_material el) (Fin 0);
          temp' = (if row_pipe_role el = heat_source
                   then Some (FtoC (or_else (row_pipe_temp el) (Fin 0)))
                   else None)
      in \<lparr>pipe_id = row_data_id el, pipe_name = row_pipe_name el, role = row_pipe_role el,
          orientation = row_pipe_orientation el,
          pipe_x = ftToM rawX, pipe_y = ftToM rawY, pipe_z = ftToM rawZ,
          temp = temp',
          od = inToM rawOD, thickness = inToM rawThickness, k_pipe = kPipe,
          ins_thickness = inToM rawInsThickness, k_ins = kIns,
          bed_thickness = inToM rawBedThickness, k_bedding = kBedding\<rparr>)"

definition getPipes :: "PipeRow list \<Rightarrow> Pipe list" where
  "getPipes rows = map getPipe rows"

text \<open>
  \<^verbatim>\<open>handleCalculate\<close> (lines 2055-2085) up to the call of \<^verbatim>\<open>calculateTemperatures\<close>.
  The rows, the soil layers that \<^verbatim>\<open>getSoilLayers\<close> gathered and the parsed soil
  temperature field are its inputs; the error is the message "Please fix the errors in
  the pipe configurations before calculating."
\<close>

datatype calc_error = PipeConfigurationErrors

definition handleCalculate ::
  "PipeRow list \<Rightarrow> SoilLayer list \<Rightarrow> number
     \<Rightarrow> calc_error + (SourceCalculation list \<times> AffectedPipeCalculation list)" where
  "handleCalculate rows soilLayers soilTempInput =
     (let hasError = list_ex (\<lambda>row. \<not> validatePipeRow row) rows
      in if hasError then Inl PipeConfigurationErrors
         else
           let pipes = getPipes rows;
               rawSoilTemp = or_else soilTempInput (Fin 0);
               T_soil_C = FtoC rawSoilTemp
           in Inr (calculateTemperatures pipes soilLayers T_soil_C))"

section \<open>The formulas of the specification\<close>


text \<open>
  The resistance of a cylindrical layer as the specification writes it (section 4.2):
  \<open>ln (r_outer / r_inner) / (2 pi k)\<close>, and 0 whenever the conductivity is zero or the inner
  radius is non-positive. Conductivities are non-negative in the specification, so the
  formula is taken where both are positive.
\<close>

definition layer_resistance :: "number \<Rightarrow> number \<Rightarrow> number \<Rightarrow> number" where
  "layer_resistance k r_outer r_inner =
     (if Fin 0 < k \<and> Fin 0 < r_inner
      then Math_log (r_outer / r_inner) / (Fin 2 * Math_PI * k)
      else Fin 0)"

section \<open>Example inputs\<close>

text \<open>Two soil layers: conductivity 1 down to 1 m, conductivity 2 from 1 m to 3 m.\<close>

definition two_layers :: "SoilLayer list" where
  "two_layers =
     [\<lparr>layer_k = Fin 1, layer_thickness = Fin 1, depth_top = Fin 0, depth_bottom = Fin 1\<rparr>,
      \<lparr>layer_k = Fin 2, layer_thickness = Fin 2, depth_top = Fin 1, depth_bottom = Fin 3\<rparr>]"

text \<open>
  A form row whose depth, 5 ft, equals its total radius, 24 / 2 + 24 + 24 = 60 in: both
  are 1.524 m (in double arithmetic as well: \<^verbatim>\<open>5 * 0.3048 === 60 * 0.0254\<close>).
\<close>

definition touching_row :: PipeRow where
  "touching_row =
     \<lparr>row_data_id = 1, row_pipe_name = ''Steam'', row_pipe_role = heat_source,
      row_pipe_orientation = parallel,
      row_pipe_x = Fin 0, row_pipe_y = Fin 0, row_pipe_z = Fin 5,
      row_pipe_od = Fin 24, row_pipe_thickness = Fin (1 / 2),
      row_pipe_insulation_thickness = Fin 24, row_pipe_bedding_thickness = Fin 24,
      row_pipe_material = Fin 45, row_pipe_insulation_material = Fin (4 / 100),
      row_pipe_bedding_material = Fin 1, row_pipe_temp = Fin 350\<rparr>"

text \<open>A heat-source row, 8 in pipe at 4 ft, whose temperature field is blank.\<close>

definition blank_temp_row :: PipeRow where
  "blank_temp_row =
     \<lparr>row_data_id = 1, row_pipe_name = ''Steam'', row_pipe_role = heat_source,
      row_pipe_orientation = parallel,
      row_pipe_x = Fin 0, row_pipe_y = Fin 0, row_pipe_z = Fin 4,
      row_pipe_od = Fin 8, row_pipe_thickness = Fin (1 / 2),
      row_pipe_insulation_thickness = Fin 0, row_pipe_bedding_thickness = Fin 0,
      row_pipe_material = Fin 45, row_pipe_insulation_material = Fin 0,
      row_pipe_bedding_material = Fin 0, row_pipe_temp = NaN\<rparr>"

text \<open>One soil layer of conductivity 1.5 down to 10 m.\<close>

definition uniform_soil :: "SoilLayer list" where
  "uniform_soil =
     [\<lparr>layer_k = Fin (15 / 10), layer_thickness = Fin 10, depth_top = Fin 0, depth_bottom = Fin 10\<rparr>]"

text \<open>
  An insulated hot-water line along the section at 1.5 m, in a bedding of radius 0.5 m,
  and a bare steam line crossing it at 1.9 m, inside that bedding.
\<close>

definition warm_source :: ScenePipe where
  "warm_source =
     \<lparr>sp_id = 1, sp_x = Fin 0, sp_y = Fin 0, sp_z = Fin (15 / 10), sp_orientation = parallel,
      r_pipe = Fin (1 / 10), r_ins = Fin (2 / 10), r_bed = Fin (1 / 2), sp_temp = Fin 120,
      isSource = True, sp_name = ''Hot water'', sp_Q = Some (Fin 100)\<rparr>"

definition steam_crossing :: ScenePipe where
  "steam_crossing =
     \<lparr>sp_id = 3, sp_x = Fin 0, sp_y = Fin 0, sp_z = Fin (19 / 10), sp_orientation = perpendicular,
      r_pipe = Fin (5 / 100), r_ins = Fin (5 / 100), r_bed = Fin (5 / 100), sp_temp = Fin 200,
      isSource = True, sp_name = ''Steam'', sp_Q = Some (Fin 400)\<rparr>"


definition crossing_scene :: SceneData where
  "crossing_scene =
     \<lparr>scene_pipes = [warm_source, steam_crossing], T_soil = Fin 15, layers = uniform_soil\<rparr>"

text \<open>
  A hot-water line 3.75 m deep and 3.6875 m beside the section's origin, alone in a
  scene, and in a scene with the line at 1.5 m and a steam line crossing at 2 m. The
  coordinates of the deep line, the depth \<open>-2\<^sup>-\<^sup>5\<^sup>1\<close> and their sums and differences are
  doubles, so the subtractions and additions of the evaluator are exact in the engine as
  they are in the model.
\<close>

definition deep_source :: ScenePipe where
  "deep_source =
     \<lparr>sp_id = 4, sp_x = Fin (59 / 16), sp_y = Fin 0, sp_z = Fin (15 / 4),
      sp_orientation = parallel,
      r_pipe = Fin (1 / 10), r_ins = Fin (2 / 10), r_bed = Fin (1 / 2), sp_temp = Fin 120,
      isSource = True, sp_name = ''Hot water, deep'', sp_Q = Some (Fin 100)\<rparr>"

definition deep_scene :: SceneData where
  "deep_scene = \<lparr>scene_pipes = [deep_source], T_soil = Fin 15, layers = uniform_soil\<rparr>"

definition deep_crossing :: ScenePipe where
  "deep_crossing =
     \<lparr>sp_id = 5, sp_x = Fin 0, sp_y = Fin 1, sp_z = Fin 2, sp_orientation = perpendicular,
      r_pipe = Fin (5 / 100), r_ins = Fin (5 / 100), r_bed = Fin (5 / 100), sp_temp = Fin 200,
      isSource = True, sp_name = ''Steam, deep'', sp_Q = Some (Fin 400)\<rparr>"

definition three_depths_scene :: SceneData where
  "three_depths_scene =
     \<lparr>scene_pipes = [warm_source, deep_source, deep_crossing], T_soil = Fin 15,
      layers = uniform_soil\<rparr>"

text \<open>
  An insulated heat source in a bedding, an affected gas main beside it, the same source
  with blank diameter and wall fields, and the same source with every material unset,
  as is the soil layer under it.
\<close>

definition insulated_pipe :: Pipe where
  "insulated_pipe =
     \<lparr>pipe_id = 1, pipe_name = ''Hot water'', role = heat_source, orientation = parallel,
      pipe_x = Fin 0, pipe_y = Fin 0, pipe_z = Fin (15 / 10), temp = Some (Fin 120),
      od = Fin (2 / 10), thickness = Fin (1 / 100), k_pipe = Fin 45,
      ins_thickness = Fin (1 / 10), k_ins = Fin (4 / 100),
      bed_thickness = Fin (3 / 10), k_bedding = Fin 1\<rparr>"


definition zero_od_pipe :: Pipe where
  "zero_od_pipe = insulated_pipe\<lparr>od := Fin 0, thickness := Fin 0\<rparr>"

definition unset_materials_pipe :: Pipe where
  "unset_materials_pipe = insulated_pipe\<lparr>k_pipe := Fin 0, k_ins := Fin 0, k_bedding := Fin 0\<rparr>"

definition unset_soil :: "SoilLayer list" where
  "unset_soil =
     [\<lparr>layer_k = Fin 0, layer_thickness = Fin 10, depth_top = Fin 0, depth_bottom = Fin 10\<rparr>]"


text \<open>A bare steam line across the section at 1.9 m, as a pipe of the calculation.\<close>

definition steam_pipe :: Pipe where
  "steam_pipe =
     \<lparr>pipe_id = 3, pipe_name = ''Steam'', role = heat_source, orientation = perpendicular,
      pipe_x = Fin 0, pipe_y = Fin 0, pipe_z = Fin (19 / 10), temp = Some (Fin 200),
      od = Fin (1 / 10), thickness = Fin (5 / 1000), k_pipe = Fin 45,
      ins_thickness = Fin 0, k_ins = Fin 0, bed_thickness = Fin 0, k_bedding = Fin 0\<rparr>"

section \<open>Marching cubes: the vertex interpolator\<close>

type_synonym Vector3 = "number \<times> number \<times> number"

definition vec_x :: "Vector3 \<Rightarrow> number" where "vec_x p = fst p"
definition vec_y :: "Vector3 \<Rightarrow> number" where "vec_y p = fst (snd p)"
definition vec_z :: "Vector3 \<Rightarrow> number" where "vec_z p = snd (snd p)"

text \<open>\<^verbatim>\<open>MarchingCubes.vertexInterp\<close> (lines 1431-1456).\<close>

definition vertexInterp :: "number \<Rightarrow> Vector3 \<Rightarrow> Vector3 \<Rightarrow> number \<Rightarrow> number \<Rightarrow> Vector3" where
  "vertexInterp isolevel p1 p2 valp1 valp2 =
     (let diff = valp2 - valp1 in
      if Math_abs diff < Fin (1 / 10 ^ 9) then (vec_x p1, vec_y p1, vec_z p1)
      else
        let mu = (isolevel - valp1) / diff;
            x = vec_x p1 + mu * (vec_x p2 - vec_x p1);
            y = vec_y p1 + mu * (vec_y p2 - vec_y p1);
            z = vec_z p1 + mu * (vec_z p2 - vec_z p1)
        in if \<not> Number_isFinite x \<or> \<not> Number_isFinite y \<or> \<not> Number_isFinite z
           then (vec_x p1, vec_y p1, vec_z p1)
           else (x, y, z))"

definition finite_vec :: "Vector3 \<Rightarrow> bool" where
  "finite_vec p = (Number_isFinite (vec_x p) \<and> Number_isFinite (vec_y p) \<and> Number_isFinite (vec_z p))"

section \<open>Marching cubes: the extractor\<close>

unbundle bit_operations_syntax

text \<open>
  The two lookup tables of the \<^verbatim>\<open>marchingCubes\<close> object (lines 1369-1370), entry for
  entry: \<open>edgeTable\<close> has 256 entries (written in hexadecimal in the source),
  \<open>triTable\<close> has 312 rows of 16 to 28 entries.
\<close>

definition edgeTable :: "nat list" where
  "edgeTable =
    [0, 265, 515, 778, 1030, 1295, 1541, 1804, 2060, 2309, 2575, 2822, 3082, 3331, 3593, 3840,
     400, 153, 915, 666, 1430, 1183, 1941, 1692, 2460, 2197, 2975, 2710, 3482, 3219, 3993,
     3728, 560, 825, 51, 314, 1590, 1855, 1077, 1340, 2620, 2869, 2111, 2358, 3642, 3891, 3129,
     3376, 928, 681, 419, 170, 1958, 1711, 1445, 1196, 2988, 2725, 2479, 2214, 4010, 3747,
     3497, 3232, 1120, 1385, 1635, 1898, 102, 367, 613, 876, 3180, 3429, 3695, 3942, 2154,
     2403, 2665, 2912, 1520, 1273, 2035, 1786, 502, 255, 1013, 764, 3580, 3317, 4095, 3830,
     2554, 2291, 3065, 2800, 1616, 1881, 1107, 1370, 598, 863, 85, 348, 3676, 3925, 3167, 3414,
     2650, 2899, 2137, 2384, 1984, 1737, 1475, 1226, 966, 719, 453, 204, 4044, 3781, 3535,
     3270, 3018, 2755, 2505, 2240, 2240, 2505, 2755, 3018, 3270, 3535, 3781, 4044, 204, 453,
     719, 966, 1226, 1475, 1737, 1984, 2384, 2137, 2899, 2650, 3414, 3167, 3925, 3676, 348, 85,
     863, 598, 1370, 1107, 1881, 1616, 2800, 3065, 2291, 2554, 3830, 4095, 3317, 3580, 764,
     1013, 255, 502, 1786, 2035, 1273, 1520, 2912, 2665, 2403, 2154, 3942, 3695, 3429, 3180,
     876, 613, 367, 102, 1898, 1635, 1385, 1120, 3232, 3497, 3747, 4010, 2214, 2479, 2725,
     2988, 1196, 1445, 1711, 1958, 170, 419, 681, 928, 3376, 3129, 3891, 3642, 2358, 2111,
     2869, 2620, 1340, 1077, 1855, 1590, 314, 51, 825, 560, 3728, 3993, 3219, 3482, 2710, 2975,
     2197, 2460, 1692, 1941, 1183, 1430, 666, 915, 153, 400, 3840, 3593, 3331, 3082, 2822,
     2575, 2309, 2060, 1804, 1541, 1295, 1030, 778, 515, 265, 0]"

definition triTable :: "int list list" where
  "triTable =
    [[- 1,- 1,- 1,- 1,- 1,- 1,- 1,- 1,- 1,- 1,- 1,- 1,- 1,- 1,- 1,- 1],
     [- 1,- 1,- 1,- 1,- 1,- 1,- 1,- 1,- 1,- 1,- 1,- 1,- 1,- 1,- 1,- 1],
     [0,8,3,- 1,- 1,- 1,- 1,- 1,- 1,- 1,- 1,- 1,- 1,- 1,- 1,- 1],
     [1,0,3,- 1,1,3,8,- 1,- 1,- 1,- 1,- 1,- 1,- 1,- 1,- 1],
     [1,2,3,- 1,- 1,- 1,- 1,- 1,- 1,- 1,- 1,- 1,- 1,- 1,- 1,- 1],
     [0,8,3,- 1,1,2,0,- 1,- 1,- 1,- 1,- 1,- 1,- 1,- 1,- 1],
     [0,2,3,- 1,0,3,1,- 1,- 1,- 1,- 1,- 1,- 1,- 1,- 1,- 1],
     [8,3,1,- 1,8,1,2,- 1,- 1,- 1,- 1,- 1,- 1,- 1,- 1,- 1],
     [4,7,8,- 1,- 1,- 1,- 1,- 1,- 1,- 1,- 1,- 1,- 1,- 1,- 1,- 1],
     [4,7,8,- 1,0,3,4,- 1,3,7,4,- 1,- 1,- 1,- 1,- 1],
     [0,3,4,- 1,0,4,7,- 1,0,7,8,- 1,- 1,- 1,- 1,- 1],
     [1,3,8,- 1,1,8,7,- 1,1,7,4,- 1,3,7,8,- 1],
     [1,2,4,- 1,1,4,7,- 1,1,7,8,- 1,- 1,- 1,- 1,- 1],
     [0,8,1,- 1,0,7,8,- 1,0,4,7,- 1,1,2,4,- 1],
     [0,2,3,- 1,4,7,0,- 1,2,7,0,- 1,- 1,- 1,- 1,- 1],
     [2,3,4,- 1,2,4,7,- 1,2,7,8,- 1,3,7,4,- 1],
     [4,5,6,- 1,- 1,- 1,- 1,- 1,- 1,- 1,- 1,- 1,- 1,- 1,- 1,- 1],
     [4,5,6,- 1,0,8,3,- 1,4,0,3,- 1,5,3,0,- 1], [0,3,4,- 1,0,4,5,- 1,0,5,6,- 1,3,5,4,- 1],
     [8,3,1,- 1,8,1,6,- 1,8,6,5,- 1,3,6,1,- 1],
     [1,2,6,- 1,1,6,5,- 1,1,5,4,- 1,- 1,- 1,- 1,- 1],
     [3,0,8,- 1,3,8,5,- 1,3,5,4,- 1,0,5,8,- 1], [0,2,3,- 1,0,3,6,- 1,0,6,5,- 1,2,5,3,- 1],
     [8,3,1,- 1,8,1,2,- 1,8,2,5,- 1,3,5,1,- 1],
     [4,5,6,- 1,4,6,7,- 1,- 1,- 1,- 1,- 1,- 1,- 1,- 1,- 1],
     [0,8,3,- 1,4,5,3,- 1,8,5,3,- 1,4,6,7,- 1], [7,8,4,- 1,7,4,5,- 1,7,5,0,- 1,8,5,4,- 1],
     [3,7,4,- 1,3,4,5,- 1,3,5,1,- 1,7,5,4,- 1], [1,2,6,- 1,1,6,7,- 1,1,7,4,- 1,2,7,6,- 1],
     [8,1,2,- 1,8,2,6,- 1,8,6,7,- 1,1,6,2,- 1], [0,2,3,- 1,4,7,6,- 1,0,3,6,- 1,2,7,3,- 1],
     [2,3,4,- 1,2,4,7,- 1,- 1,- 1,- 1,- 1,- 1,- 1,- 1,- 1],
     [9,10,11,- 1,- 1,- 1,- 1,- 1,- 1,- 1,- 1,- 1,- 1,- 1,- 1,- 1],
     [0,8,3,- 1,9,10,11,- 1,0,9,3,- 1,8,10,9,- 1],
     [1,2,0,- 1,9,10,11,- 1,1,9,0,- 1,2,10,9,- 1],
     [1,2,3,- 1,9,10,11,- 1,- 1,- 1,- 1,- 1,- 1,- 1,- 1,- 1],
     [4,7,8,- 1,9,10,11,- 1,4,9,8,- 1,7,10,9,- 1], [4,7,8,- 1,0,3,4,- 1,3,7,4,- 1,9,10,11,- 1],
     [0,3,4,- 1,0,4,7,- 1,0,7,8,- 1,9,10,11,- 1],
     [1,3,8,- 1,1,8,7,- 1,1,7,4,- 1,3,7,8,- 1,9,10,11,- 1],
     [4,5,6,- 1,9,10,11,- 1,4,9,6,- 1,5,10,9,- 1],
     [3,0,8,- 1,3,8,5,- 1,3,5,4,- 1,9,10,11,- 1,4,9,5,- 1,0,10,9,- 1],
     [0,3,4,- 1,0,4,5,- 1,0,5,6,- 1,9,10,11,- 1,3,9,5,- 1,4,10,9,- 1],
     [1,3,8,- 1,1,8,5,- 1,1,5,6,- 1,3,5,8,- 1,9,10,11,- 1],
     [1,2,6,- 1,1,6,5,- 1,1,5,4,- 1,9,10,11,- 1,2,9,5,- 1,1,10,9,- 1],
     [0,8,3,- 1,1,2,0,- 1,- 1,- 1,- 1,- 1,9,10,11,- 1,2,9,3,- 1,0,10,9,- 1],
     [9,10,11,- 1,0,2,3,- 1,0,3,6,- 1,0,6,5,- 1,2,9,3,- 1,6,10,9,- 1],
     [1,2,3,- 1,9,10,11,- 1,8,5,1,- 1,3,8,1,- 1,6,10,9,- 1,5,9,1,- 1],
     [1,2,11,- 1,1,11,9,- 1,- 1,- 1,- 1,- 1,- 1,- 1,- 1,- 1],
     [0,8,3,- 1,1,2,11,- 1,0,1,11,- 1,8,2,1,- 1], [0,2,3,- 1,0,3,11,- 1,0,11,9,- 1,2,11,3,- 1],
     [1,2,3,- 1,3,2,11,- 1,- 1,- 1,- 1,- 1,- 1,- 1,- 1,- 1],
     [4,7,8,- 1,1,2,11,- 1,4,1,8,- 1,7,2,1,- 1], [4,7,8,- 1,0,3,4,- 1,3,7,4,- 1,1,2,11,- 1],
     [8,0,3,- 1,8,3,11,- 1,8,11,7,- 1,0,11,3,- 1],
     [1,3,11,- 1,1,11,7,- 1,1,7,4,- 1,3,7,11,- 1], [4,5,6,- 1,1,2,11,- 1,4,1,6,- 1,5,2,1,- 1],
     [0,8,3,- 1,1,2,11,- 1,0,1,3,- 1,8,2,1,- 1,4,5,6,- 1],
     [11,9,0,- 1,11,0,3,- 1,11,3,6,- 1,9,3,0,- 1],
     [1,2,3,- 1,1,3,6,- 1,1,6,5,- 1,3,5,6,- 1,11,9,1,- 1],
     [1,2,11,- 1,1,11,4,- 1,1,4,5,- 1,2,4,11,- 1],
     [3,0,8,- 1,3,8,5,- 1,3,5,4,- 1,2,11,1,- 1,0,4,8,- 1],
     [0,2,3,- 1,0,3,6,- 1,0,6,5,- 1,2,11,3,- 1,6,4,5,- 1],
     [3,8,2,- 1,3,2,11,- 1,8,11,2,- 1,- 1,- 1,- 1,- 1],
     [4,5,6,- 1,4,6,7,- 1,1,2,9,- 1,5,1,9,- 1,6,2,1,- 1],
     [0,8,3,- 1,4,5,3,- 1,8,5,3,- 1,4,6,7,- 1,1,2,9,- 1],
     [8,4,7,- 1,8,7,5,- 1,8,5,0,- 1,4,5,7,- 1,1,2,9,- 1],
     [1,2,9,- 1,3,7,4,- 1,3,4,5,- 1,3,5,1,- 1,7,5,4,- 1],
     [1,2,6,- 1,1,6,7,- 1,1,7,4,- 1,2,7,6,- 1,9,10,1,- 1],
     [1,6,2,- 1,8,6,1,- 1,7,6,8,- 1,- 1,- 1,- 1,- 1,9,10,1,- 1],
     [3,0,2,- 1,3,2,7,- 1,3,7,4,- 1,0,7,2,- 1,9,10,1,- 1,6,8,7,- 1],
     [2,3,4,- 1,2,4,7,- 1,9,10,1,- 1,3,9,1,- 1,4,10,9,- 1],
     [9,10,11,- 1,2,3,7,- 1,11,2,7,- 1,10,3,2,- 1],
     [0,8,3,- 1,9,10,11,- 1,2,3,7,- 1,0,9,3,- 1,11,2,7,- 1,8,10,9,- 1],
     [0,2,3,- 1,9,10,11,- 1,1,9,0,- 1,2,10,9,- 1,3,7,0,- 1,11,1,9,- 1],
     [1,2,3,- 1,9,10,11,- 1,3,7,1,- 1,11,2,7,- 1,10,3,2,- 1],
     [1,2,11,- 1,1,11,9,- 1,4,7,8,- 1,2,8,11,- 1,9,4,8,- 1],
     [1,2,11,- 1,0,8,3,- 1,0,1,11,- 1,8,2,1,- 1,4,7,8,- 1],
     [0,2,3,- 1,0,3,11,- 1,0,11,9,- 1,2,11,3,- 1,4,7,8,- 1],
     [1,2,3,- 1,3,2,11,- 1,4,7,8,- 1,- 1,- 1,- 1,- 1],
     [4,5,6,- 1,9,10,11,- 1,1,2,9,- 1,5,10,9,- 1,6,2,10,- 1],
     [0,8,3,- 1,1,2,10,- 1,0,1,10,- 1,8,2,1,- 1,9,5,4,- 1,11,6,5,- 1],
     [0,2,3,- 1,9,10,11,- 1,3,9,0,- 1,5,9,3,- 1,6,10,9,- 1],
     [1,2,3,- 1,9,10,11,- 1,8,6,5,- 1,3,8,5,- 1,1,9,6,- 1,2,10,9,- 1],
     [1,2,9,- 1,1,9,10,- 1,1,10,5,- 1,2,5,9,- 1], [0,8,3,- 1,0,3,5,- 1,0,5,10,- 1,8,5,3,- 1],
     [9,10,0,- 1,9,0,3,- 1,9,3,5,- 1,10,5,0,- 1],
     [3,8,5,- 1,10,3,5,- 1,- 1,- 1,- 1,- 1,- 1,- 1,- 1,- 1],
     [1,2,9,- 1,1,9,10,- 1,1,10,6,- 1,2,6,9,- 1], [0,8,3,- 1,2,9,1,- 1,0,6,9,- 1,2,0,9,- 1],
     [0,2,3,- 1,0,3,6,- 1,0,6,10,- 1,2,6,3,- 1],
     [2,3,6,- 1,10,2,6,- 1,- 1,- 1,- 1,- 1,- 1,- 1,- 1,- 1],
     [1,2,9,- 1,1,9,10,- 1,4,7,8,- 1,2,8,9,- 1,10,4,8,- 1],
     [0,8,3,- 1,1,2,9,- 1,0,1,9,- 1,8,2,1,- 1,4,7,8,- 1,10,4,9,- 1],
     [0,2,3,- 1,9,10,0,- 1,2,10,0,- 1,4,7,8,- 1],
     [1,2,3,- 1,4,7,8,- 1,9,10,1,- 1,- 1,- 1,- 1,- 1],
     [1,2,9,- 1,1,9,10,- 1,4,5,6,- 1,2,6,9,- 1,10,4,6,- 1],
     [1,2,10,- 1,0,8,3,- 1,0,1,10,- 1,8,2,1,- 1,4,5,6,- 1],
     [0,2,3,- 1,0,3,6,- 1,0,6,10,- 1,2,6,3,- 1,4,5,6,- 1],
     [1,2,3,- 1,4,5,6,- 1,8,10,2,- 1,3,8,2,- 1,5,10,8,- 1],
     [2,3,7,- 1,2,7,10,- 1,- 1,- 1,- 1,- 1,- 1,- 1,- 1,- 1],
     [3,0,8,- 1,3,8,10,- 1,3,10,7,- 1,0,10,8,- 1], [0,2,3,- 1,0,3,7,- 1,0,7,10,- 1,2,7,3,- 1],
     [2,3,7,- 1,10,2,7,- 1,- 1,- 1,- 1,- 1,- 1,- 1,- 1,- 1],
     [1,2,6,- 1,1,6,7,- 1,1,7,10,- 1,2,10,6,- 1],
     [1,6,2,- 1,8,6,1,- 1,7,6,8,- 1,10,1,6,- 1,8,10,6,- 1],
     [0,2,3,- 1,4,7,6,- 1,0,3,6,- 1,2,7,3,- 1,10,0,6,- 1,7,10,6,- 1],
     [2,3,4,- 1,2,4,7,- 1,10,2,7,- 1,4,10,7,- 1],
     [1,2,6,- 1,1,6,7,- 1,9,10,1,- 1,6,9,1,- 1,7,10,9,- 1],
     [1,6,2,- 1,8,6,1,- 1,7,6,8,- 1,9,10,1,- 1],
     [3,0,2,- 1,3,2,7,- 1,3,7,4,- 1,0,7,2,- 1,9,10,1,- 1,6,8,7,- 1],
     [2,3,4,- 1,2,4,7,- 1,9,10,1,- 1,3,9,1,- 1,4,10,9,- 1,7,9,4,- 1],
     [2,3,7,- 1,2,7,11,- 1,9,10,2,- 1,7,10,2,- 1,11,10,7,- 1],
     [3,0,8,- 1,3,8,11,- 1,3,11,7,- 1,0,11,8,- 1,9,10,2,- 1],
     [0,2,3,- 1,0,3,11,- 1,0,11,9,- 1,2,11,3,- 1,7,10,2,- 1],
     [2,3,7,- 1,11,2,7,- 1,10,2,11,- 1,- 1,- 1,- 1,- 1],
     [2,7,6,- 1,2,11,7,- 1,- 1,- 1,- 1,- 1,- 1,- 1,- 1,- 1],
     [1,8,7,- 1,1,7,11,- 1,1,11,2,- 1,8,11,7,- 1],
     [3,0,2,- 1,3,2,11,- 1,3,11,7,- 1,0,11,2,- 1,6,8,7,- 1],
     [1,3,11,- 1,1,11,7,- 1,2,6,1,- 1,3,2,1,- 1,7,6,2,- 1],
     [2,7,6,- 1,2,11,7,- 1,9,10,2,- 1,11,10,2,- 1,7,10,11,- 1],
     [1,8,7,- 1,1,7,11,- 1,1,11,2,- 1,8,11,7,- 1,9,10,2,- 1],
     [3,0,2,- 1,3,2,11,- 1,3,11,7,- 1,0,11,2,- 1,9,10,2,- 1,6,8,7,- 1],
     [1,3,11,- 1,1,11,7,- 1,2,6,1,- 1,3,2,1,- 1,7,6,2,- 1,9,10,1,- 1],
     [10,11,0,- 1,10,0,1,- 1,- 1,- 1,- 1,- 1,- 1,- 1,- 1,- 1],
     [8,3,0,- 1,8,0,1,- 1,8,1,10,- 1,3,10,0,- 1],
     [0,2,3,- 1,1,10,0,- 1,2,10,1,- 1,- 1,- 1,- 1,- 1],
     [2,3,8,- 1,2,8,10,- 1,3,10,8,- 1,- 1,- 1,- 1,- 1],
     [1,10,11,- 1,4,7,8,- 1,1,4,11,- 1,10,7,4,- 1],
     [1,10,11,- 1,0,3,4,- 1,0,4,7,- 1,0,7,8,- 1,1,4,11,- 1,10,7,4,- 1],
     [0,3,4,- 1,0,4,7,- 1,0,7,8,- 1,11,10,0,- 1,7,11,0,- 1],
     [1,3,8,- 1,1,8,7,- 1,1,7,4,- 1,3,7,8,- 1,11,10,1,- 1,7,11,1,- 1],
     [1,10,11,- 1,4,5,6,- 1,1,4,11,- 1,10,5,4,- 1],
     [8,3,0,- 1,8,0,5,- 1,8,5,4,- 1,3,5,0,- 1,11,10,1,- 1],
     [0,3,4,- 1,0,4,5,- 1,0,5,6,- 1,10,11,0,- 1,5,10,0,- 1,6,11,10,- 1],
     [8,3,1,- 1,8,1,6,- 1,8,6,5,- 1,3,6,1,- 1,10,11,1,- 1],
     [1,10,11,- 1,1,11,5,- 1,1,5,4,- 1,10,5,11,- 1],
     [0,8,3,- 1,0,3,5,- 1,0,5,11,- 1,8,5,3,- 1,10,11,1,- 1],
     [0,2,3,- 1,0,3,6,- 1,0,6,5,- 1,10,11,0,- 1,6,10,0,- 1,5,11,10,- 1],
     [2,3,8,- 1,2,8,5,- 1,2,5,6,- 1,3,5,8,- 1,10,11,2,- 1],
     [4,5,6,- 1,4,6,7,- 1,10,11,4,- 1,6,10,4,- 1],
     [3,0,8,- 1,4,5,3,- 1,8,5,3,- 1,4,6,7,- 1,10,11,4,- 1],
     [7,8,4,- 1,7,4,5,- 1,7,5,0,- 1,8,5,4,- 1,10,11,7,- 1,5,10,7,- 1],
     [3,7,4,- 1,3,4,5,- 1,3,5,1,- 1,7,5,4,- 1,10,11,1,- 1],
     [1,2,6,- 1,1,6,7,- 1,1,7,4,- 1,2,7,6,- 1,10,11,1,- 1,7,10,1,- 1],
     [8,1,2,- 1,8,2,6,- 1,8,6,7,- 1,1,6,2,- 1,10,11,1,- 1],
     [0,2,3,- 1,4,7,6,- 1,0,3,6,- 1,2,7,3,- 1,10,11,0,- 1,7,10,0,- 1],
     [2,3,4,- 1,2,4,7,- 1,10,11,2,- 1,4,10,2,- 1,7,11,10,- 1],
     [0,1,2,- 1,0,2,3,- 1,- 1,- 1,- 1,- 1,- 1,- 1,- 1,- 1],
     [0,1,2,- 1,0,2,3,- 1,8,7,6,- 1,1,7,6,- 1,0,8,7,- 1],
     [0,1,2,- 1,0,2,3,- 1,4,5,6,- 1,0,5,6,- 1,1,4,5,- 1],
     [1,2,3,- 1,4,5,6,- 1,- 1,- 1,- 1,- 1,- 1,- 1,- 1,- 1],
     [4,5,1,- 1,4,1,0,- 1,- 1,- 1,- 1,- 1,- 1,- 1,- 1,- 1],
     [4,5,1,- 1,4,1,0,- 1,8,7,6,- 1,5,7,6,- 1,4,8,7,- 1],
     [4,5,1,- 1,4,1,0,- 1,2,3,0,- 1,5,3,0,- 1,4,2,3,- 1],
     [8,7,6,- 1,5,4,1,- 1,5,1,2,- 1,5,2,3,- 1,7,2,6,- 1],
     [4,5,1,- 1,4,1,0,- 1,4,0,7,- 1,5,7,0,- 1],
     [0,8,7,- 1,5,4,8,- 1,- 1,- 1,- 1,- 1,- 1,- 1,- 1,- 1],
     [4,5,1,- 1,4,1,0,- 1,2,3,1,- 1,5,3,1,- 1,7,3,5,- 1],
     [8,7,3,- 1,8,3,2,- 1,8,2,5,- 1,7,5,3,- 1],
     [4,5,1,- 1,4,11,7,- 1,5,11,4,- 1,- 1,- 1,- 1,- 1],
     [0,8,7,- 1,0,7,11,- 1,0,11,5,- 1,8,11,7,- 1],
     [1,0,2,- 1,3,11,5,- 1,0,11,5,- 1,2,3,11,- 1,4,7,1,- 1],
     [3,2,8,- 1,3,8,7,- 1,3,7,11,- 1,2,7,8,- 1,5,4,1,- 1],
     [0,1,6,- 1,0,6,7,- 1,0,7,4,- 1,1,7,6,- 1],
     [8,6,7,- 1,- 1,- 1,- 1,- 1,- 1,- 1,- 1,- 1,- 1,- 1,- 1,- 1],
     [0,1,6,- 1,0,6,3,- 1,4,7,6,- 1,3,4,6,- 1,1,7,4,- 1],
     [2,3,8,- 1,2,8,7,- 1,4,6,8,- 1,7,4,8,- 1], [1,2,10,- 1,1,10,11,- 1,1,11,4,- 1,2,4,10,- 1],
     [3,0,8,- 1,3,8,7,- 1,3,7,11,- 1,0,7,8,- 1,1,2,10,- 1,4,11,7,- 1],
     [0,1,2,- 1,0,2,3,- 1,4,7,11,- 1,0,7,11,- 1,1,4,7,- 1],
     [1,2,10,- 1,3,8,7,- 1,2,8,10,- 1,7,3,8,- 1,4,11,7,- 1,10,11,2,- 1],
     [0,1,2,- 1,8,9,10,- 1,1,8,2,- 1,9,10,8,- 1],
     [3,0,1,- 1,3,1,2,- 1,8,9,10,- 1,- 1,- 1,- 1,- 1],
     [0,1,2,- 1,0,2,3,- 1,8,9,10,- 1,2,8,3,- 1,9,10,8,- 1],
     [1,2,3,- 1,8,9,10,- 1,- 1,- 1,- 1,- 1,- 1,- 1,- 1,- 1],
     [0,1,2,- 1,4,5,1,- 1,2,4,1,- 1,- 1,- 1,- 1,- 1],
     [3,0,1,- 1,3,1,2,- 1,4,5,1,- 1,- 1,- 1,- 1,- 1],
     [0,1,2,- 1,0,2,3,- 1,4,5,1,- 1,3,4,1,- 1,2,5,4,- 1],
     [1,2,3,- 1,4,5,1,- 1,- 1,- 1,- 1,- 1,- 1,- 1,- 1,- 1],
     [1,2,6,- 1,1,6,7,- 1,0,4,5,- 1,2,4,5,- 1,1,0,4,- 1],
     [1,2,6,- 1,1,6,7,- 1,3,0,4,- 1,2,3,4,- 1,1,0,3,- 1],
     [0,1,2,- 1,0,2,3,- 1,4,5,6,- 1,- 1,- 1,- 1,- 1],
     [1,2,3,- 1,4,5,6,- 1,- 1,- 1,- 1,- 1,- 1,- 1,- 1,- 1],
     [1,2,11,- 1,4,7,6,- 1,2,7,6,- 1,11,4,7,- 1], [1,2,11,- 1,3,0,8,- 1,2,0,8,- 1,11,3,0,- 1],
     [0,1,2,- 1,0,2,3,- 1,4,7,6,- 1,3,4,6,- 1,2,7,4,- 1,0,3,4,- 1],
     [1,2,3,- 1,4,7,6,- 1,- 1,- 1,- 1,- 1,- 1,- 1,- 1,- 1],
     [1,2,11,- 1,1,11,5,- 1,1,5,4,- 1,2,5,11,- 1],
     [0,8,3,- 1,0,3,5,- 1,0,5,11,- 1,8,5,3,- 1,2,1,4,- 1],
     [0,1,2,- 1,0,2,3,- 1,4,5,11,- 1,0,5,11,- 1,1,4,5,- 1],
     [1,2,3,- 1,4,5,11,- 1,8,5,3,- 1,11,2,1,- 1,4,8,1,- 1],
     [1,2,10,- 1,1,10,7,- 1,1,7,6,- 1,2,7,10,- 1],
     [8,7,6,- 1,1,2,10,- 1,8,1,6,- 1,7,2,1,- 1,10,8,1,- 1],
     [0,1,2,- 1,0,2,3,- 1,4,7,6,- 1,1,7,6,- 1,0,8,7,- 1,2,4,3,- 1],
     [1,2,10,- 1,3,4,7,- 1,2,4,10,- 1,7,1,3,- 1,6,10,4,- 1],
     [0,1,9,- 1,0,9,11,- 1,0,11,7,- 1,1,11,9,- 1], [8,9,1,- 1,8,1,0,- 1,8,0,7,- 1,9,0,1,- 1],
     [0,1,9,- 1,0,9,2,- 1,3,7,9,- 1,2,3,9,- 1,1,7,3,- 1],
     [3,2,8,- 1,3,8,7,- 1,9,1,8,- 1,2,9,8,- 1], [0,1,9,- 1,0,9,11,- 1,5,4,9,- 1,11,5,9,- 1],
     [8,9,1,- 1,8,1,0,- 1,8,0,4,- 1,9,4,1,- 1,5,8,4,- 1],
     [0,1,9,- 1,0,9,2,- 1,3,4,9,- 1,2,3,9,- 1,1,5,4,- 1],
     [3,2,8,- 1,3,8,4,- 1,3,4,5,- 1,2,4,8,- 1,1,9,5,- 1],
     [0,1,9,- 1,0,9,11,- 1,0,11,7,- 1,1,11,9,- 1,2,10,3,- 1],
     [8,9,1,- 1,8,1,0,- 1,8,0,7,- 1,9,0,1,- 1,2,10,3,- 1],
     [0,1,9,- 1,0,9,2,- 1,3,7,9,- 1,2,3,9,- 1,1,7,3,- 1,10,2,7,- 1],
     [3,2,8,- 1,3,8,7,- 1,9,1,8,- 1,2,9,8,- 1,10,3,7,- 1],
     [1,2,10,- 1,1,10,11,- 1,5,4,1,- 1,10,4,1,- 1,11,5,4,- 1],
     [1,2,10,- 1,1,10,11,- 1,0,8,3,- 1,2,8,10,- 1,11,0,8,- 1],
     [0,1,2,- 1,0,2,3,- 1,4,5,10,- 1,0,5,10,- 1,1,4,5,- 1,3,11,2,- 1],
     [1,2,3,- 1,4,5,10,- 1,8,5,3,- 1,10,2,1,- 1,4,8,1,- 1,11,2,3,- 1],
     [1,2,10,- 1,1,10,11,- 1,1,11,7,- 1,2,7,10,- 1,3,8,4,- 1],
     [1,2,10,- 1,1,10,11,- 1,8,7,6,- 1,2,7,10,- 1,11,8,7,- 1],
     [0,1,2,- 1,0,2,3,- 1,4,7,6,- 1,1,7,6,- 1,0,8,7,- 1,10,11,3,- 1],
     [1,2,3,- 1,4,7,6,- 1,10,11,1,- 1,- 1,- 1,- 1,- 1],
     [0,4,5,- 1,0,5,11,- 1,0,11,10,- 1,4,11,5,- 1],
     [1,0,8,- 1,1,8,3,- 1,4,5,11,- 1,0,5,11,- 1,1,4,5,- 1],
     [0,4,5,- 1,0,5,2,- 1,0,2,3,- 1,4,2,5,- 1],
     [1,0,8,- 1,1,8,3,- 1,2,4,5,- 1,0,4,8,- 1,3,2,4,- 1],
     [0,4,5,- 1,0,5,11,- 1,0,11,10,- 1,4,11,5,- 1,1,2,6,- 1],
     [3,1,0,- 1,3,0,8,- 1,5,11,4,- 1,1,2,6,- 1,0,5,8,- 1,11,6,2,- 1],
     [0,4,5,- 1,0,5,2,- 1,0,2,3,- 1,4,2,5,- 1,6,11,10,- 1],
     [1,0,8,- 1,1,8,3,- 1,2,4,5,- 1,0,4,8,- 1,3,2,4,- 1,6,11,10,- 1],
     [0,4,5,- 1,8,9,10,- 1,4,8,5,- 1,9,10,8,- 1],
     [1,0,3,- 1,4,5,3,- 1,0,5,3,- 1,- 1,- 1,- 1,- 1,8,9,10,- 1],
     [0,4,5,- 1,0,5,2,- 1,0,2,3,- 1,4,2,5,- 1,8,9,10,- 1],
     [1,0,3,- 1,4,5,3,- 1,0,5,3,- 1,2,8,9,- 1,10,4,5,- 1],
     [0,4,5,- 1,8,9,10,- 1,4,8,5,- 1,9,10,8,- 1,1,2,6,- 1],
     [1,0,3,- 1,4,5,3,- 1,0,5,3,- 1,1,2,6,- 1,8,9,10,- 1],
     [0,4,5,- 1,0,5,2,- 1,0,2,3,- 1,4,2,5,- 1,8,9,10,- 1,1,6,2,- 1],
     [1,0,3,- 1,4,5,3,- 1,0,5,3,- 1,1,2,6,- 1,8,9,10,- 1,2,5,1,- 1],
     [0,4,5,- 1,8,9,10,- 1,11,7,6,- 1,4,8,5,- 1,9,10,8,- 1,11,7,6,- 1],
     [1,0,3,- 1,4,5,3,- 1,0,5,3,- 1,8,9,10,- 1,11,7,6,- 1],
     [0,4,5,- 1,0,5,2,- 1,0,2,3,- 1,4,2,5,- 1,8,9,10,- 1,11,7,6,- 1],
     [1,0,3,- 1,4,5,3,- 1,0,5,3,- 1,1,2,6,- 1,8,9,10,- 1,11,7,6,- 1],
     [8,9,4,- 1,- 1,- 1,- 1,- 1,- 1,- 1,- 1,- 1,- 1,- 1,- 1,- 1],
     [0,3,4,- 1,0,4,9,- 1,0,9,8,- 1,3,9,4,- 1], [0,3,4,- 1,1,2,9,- 1,0,1,9,- 1,3,2,1,- 1],
     [1,2,3,- 1,9,8,3,- 1,- 1,- 1,- 1,- 1,- 1,- 1,- 1,- 1],
     [1,2,4,- 1,1,4,9,- 1,1,9,8,- 1,2,9,4,- 1],
     [0,3,4,- 1,0,4,9,- 1,0,9,8,- 1,3,9,4,- 1,1,2,0,- 1],
     [0,2,3,- 1,0,3,8,- 1,0,8,9,- 1,2,8,3,- 1],
     [3,8,9,- 1,2,3,9,- 1,- 1,- 1,- 1,- 1,- 1,- 1,- 1,- 1],
     [4,7,9,- 1,4,9,8,- 1,- 1,- 1,- 1,- 1,- 1,- 1,- 1,- 1],
     [0,3,4,- 1,0,4,7,- 1,0,7,9,- 1,3,7,4,- 1],
     [0,3,4,- 1,0,4,7,- 1,1,2,9,- 1,3,1,9,- 1,0,2,1,- 1],
     [1,2,3,- 1,4,7,3,- 1,9,8,3,- 1,2,4,3,- 1,7,9,4,- 1],
     [1,2,4,- 1,1,4,7,- 1,1,7,9,- 1,2,7,4,- 1],
     [0,3,4,- 1,0,4,7,- 1,1,2,0,- 1,3,7,4,- 1,2,7,0,- 1],
     [0,2,3,- 1,0,3,8,- 1,4,7,8,- 1,3,4,8,- 1,2,7,4,- 1],
     [2,3,4,- 1,2,4,7,- 1,- 1,- 1,- 1,- 1,- 1,- 1,- 1,- 1],
     [4,5,6,- 1,9,8,4,- 1,5,6,8,- 1,- 1,- 1,- 1,- 1],
     [0,3,4,- 1,0,4,9,- 1,0,9,8,- 1,3,9,4,- 1,5,6,0,- 1],
     [0,3,4,- 1,1,2,9,- 1,0,1,9,- 1,3,2,1,- 1,5,6,3,- 1],
     [1,2,3,- 1,9,8,3,- 1,5,6,3,- 1,- 1,- 1,- 1,- 1],
     [1,2,4,- 1,1,4,9,- 1,1,9,8,- 1,2,9,4,- 1,5,6,1,- 1],
     [0,3,4,- 1,0,4,9,- 1,0,9,8,- 1,3,9,4,- 1,1,2,0,- 1,5,6,1,- 1],
     [0,2,3,- 1,0,3,8,- 1,0,8,9,- 1,2,8,3,- 1,5,6,2,- 1],
     [2,3,9,- 1,8,3,9,- 1,5,6,2,- 1,- 1,- 1,- 1,- 1],
     [4,5,6,- 1,4,6,7,- 1,4,7,9,- 1,5,7,6,- 1],
     [0,3,4,- 1,0,4,7,- 1,5,6,0,- 1,4,9,7,- 1,3,5,0,- 1,6,9,5,- 1],
     [0,3,4,- 1,0,4,7,- 1,1,2,9,- 1,3,1,9,- 1,0,2,1,- 1,5,6,3,- 1,7,5,3,- 1],
     [1,2,3,- 1,4,7,3,- 1,9,8,3,- 1,2,4,3,- 1,7,9,4,- 1,5,6,2,- 1],
     [1,2,4,- 1,1,4,7,- 1,1,7,9,- 1,2,7,4,- 1,5,6,1,- 1,7,5,1,- 1],
     [0,3,4,- 1,0,4,7,- 1,1,2,0,- 1,3,7,4,- 1,2,7,0,- 1,5,6,1,- 1,7,5,1,- 1],
     [0,2,3,- 1,0,3,8,- 1,4,7,8,- 1,3,4,8,- 1,2,7,4,- 1,5,6,2,- 1,7,5,2,- 1],
     [2,3,4,- 1,2,4,7,- 1,5,6,2,- 1,4,5,2,- 1,7,6,5,- 1],
     [9,10,11,- 1,8,7,6,- 1,9,8,11,- 1,7,6,8,- 1],
     [0,3,9,- 1,0,9,11,- 1,0,11,10,- 1,3,11,9,- 1,8,7,6,- 1],
     [0,1,2,- 1,9,10,11,- 1,1,9,0,- 1,2,10,9,- 1,8,7,6,- 1],
     [1,2,3,- 1,9,10,11,- 1,8,7,6,- 1,- 1,- 1,- 1,- 1],
     [1,2,4,- 1,9,10,11,- 1,8,7,6,- 1,1,8,4,- 1,2,7,8,- 1,10,11,9,- 1],
     [1,2,0,- 1,4,7,0,- 1,3,0,4,- 1,- 1,- 1,- 1,- 1,8,9,10,- 1,11,6,5,- 1],
     [0,1,2,- 1,0,2,3,- 1,4,7,8,- 1,9,10,11,- 1,- 1,- 1,- 1,- 1],
     [1,2,3,- 1,4,7,8,- 1,9,10,11,- 1,- 1,- 1,- 1,- 1],
     [4,5,6,- 1,8,9,4,- 1,5,9,4,- 1,- 1,- 1,- 1,- 1],
     [8,9,0,- 1,8,0,3,- 1,8,3,4,- 1,9,3,0,- 1], [0,1,2,- 1,8,9,5,- 1,0,5,4,- 1,1,5,9,- 1],
     [1,2,3,- 1,8,9,5,- 1,4,3,5,- 1,- 1,- 1,- 1,- 1],
     [1,2,6,- 1,1,6,5,- 1,8,9,6,- 1,5,8,6,- 1], [0,3,8,- 1,0,8,5,- 1,0,5,6,- 1,3,5,8,- 1],
     [0,1,2,- 1,0,1,6,- 1,0,6,5,- 1,1,5,6,- 1],
     [5,6,8,- 1,3,5,8,- 1,- 1,- 1,- 1,- 1,- 1,- 1,- 1,- 1],
     [4,5,6,- 1,4,6,7,- 1,8,9,7,- 1,6,8,7,- 1],
     [0,3,8,- 1,5,6,3,- 1,7,3,6,- 1,- 1,- 1,- 1,- 1],
     [0,1,2,- 1,4,7,5,- 1,0,5,1,- 1,7,5,4,- 1],
     [1,2,3,- 1,4,7,5,- 1,8,3,5,- 1,- 1,- 1,- 1,- 1],
     [1,2,6,- 1,1,6,7,- 1,8,9,7,- 1,1,8,7,- 1],
     [8,9,7,- 1,1,8,7,- 1,- 1,- 1,- 1,- 1,- 1,- 1,- 1,- 1],
     [0,1,2,- 1,0,1,3,- 1,4,7,3,- 1,1,4,3,- 1],
     [2,3,8,- 1,4,7,8,- 1,- 1,- 1,- 1,- 1,- 1,- 1,- 1,- 1],
     [9,10,11,- 1,7,8,4,- 1,10,8,4,- 1,11,7,8,- 1],
     [11,10,9,- 1,11,9,0,- 1,11,0,3,- 1,9,3,0,- 1,7,8,4,- 1],
     [0,1,2,- 1,9,10,11,- 1,1,9,0,- 1,2,10,9,- 1,7,8,4,- 1],
     [1,2,3,- 1,9,10,11,- 1,7,8,4,- 1,- 1,- 1,- 1,- 1],
     [1,2,11,- 1,1,11,9,- 1,7,8,4,- 1,2,8,11,- 1,9,4,8,- 1],
     [1,2,11,- 1,1,11,9,- 1,0,3,4,- 1,2,3,11,- 1,9,0,3,- 1,7,8,4,- 1],
     [0,1,2,- 1,0,1,9,- 1,0,9,11,- 1,1,11,9,- 1,7,8,4,- 1],
     [1,2,3,- 1,1,3,9,- 1,1,9,11,- 1,3,11,9,- 1,7,8,4,- 1],
     [4,5,6,- 1,7,8,4,- 1,9,10,11,- 1,5,8,4,- 1,6,7,8,- 1,9,10,11,- 1],
     [11,10,9,- 1,4,5,6,- 1,0,3,9,- 1,5,3,9,- 1,6,11,3,- 1,4,0,3,- 1],
     [0,1,2,- 1,4,5,6,- 1,9,10,11,- 1,1,9,0,- 1,2,10,9,- 1,5,8,4,- 1],
     [1,2,3,- 1,4,5,6,- 1,9,10,11,- 1,8,7,3,- 1,5,8,3,- 1,6,7,5,- 1],
     [1,2,11,- 1,1,11,9,- 1,4,5,6,- 1,2,5,11,- 1,9,4,5,- 1],
     [1,2,11,- 1,1,11,9,- 1,3,0,8,- 1,2,0,11,- 1,9,3,0,- 1,5,4,6,- 1],
     [0,1,2,- 1,0,1,9,- 1,0,9,11,- 1,1,11,9,- 1,3,4,5,- 1,6,0,3,- 1],
     [1,2,3,- 1,1,3,9,- 1,1,9,11,- 1,3,11,9,- 1,4,5,6,- 1,8,7,0,- 1],
     [4,5,6,- 1,7,8,4,- 1,10,11,1,- 1,5,8,4,- 1,6,7,8,- 1,10,11,1,- 1],
     [4,5,6,- 1,7,8,4,- 1,3,0,10,- 1,5,8,4,- 1,6,7,8,- 1,0,10,3,- 1,11,1,10,- 1],
     [0,1,2,- 1,0,1,3,- 1,4,5,6,- 1,7,8,3,- 1,5,8,3,- 1,6,7,5,- 1,10,11,0,- 1],
     [1,2,3,- 1,4,5,6,- 1,7,8,3,- 1,10,11,1,- 1,- 1,- 1,- 1]]"

text \<open>
  \<^verbatim>\<open>getVal\<close> of \<^verbatim>\<open>run\<close> (lines 1376-1379). A read past the end of \<open>data\<close> is
  \<^verbatim>\<open>undefined\<close>, which compares and computes as \<open>NaN\<close> wherever \<^verbatim>\<open>run\<close> uses it.
\<close>

definition getVal :: "number list \<Rightarrow> int \<times> int \<times> int \<Rightarrow> int \<Rightarrow> int \<Rightarrow> int \<Rightarrow> number" where
  "getVal data dims x y z =
     (case dims of (dimX, dimY, dimZ) \<Rightarrow>
        if x < 0 \<or> y < 0 \<or> z < 0 \<or> dimX \<le> x \<or> dimY \<le> y \<or> dimZ \<le> z then Fin 0
        else let i = x + y * dimX + z * dimX * dimY
             in if 0 \<le> i \<and> nat i < length data then data ! nat i else NaN)"

definition lattice :: "int \<times> int \<times> int \<Rightarrow> Vector3" where
  "lattice pos = (case pos of (x, y, z) \<Rightarrow> (Fin (of_int x), Fin (of_int y), Fin (of_int z)))"

text \<open>The eight corners \<^verbatim>\<open>p\<close> of the cube at \<open>(x, y, z)\<close> (lines 1384-1387).\<close>

definition corners :: "int \<Rightarrow> int \<Rightarrow> int \<Rightarrow> (int \<times> int \<times> int) list" where
  "corners x y z =
     [(x, y, z), (x + 1, y, z), (x + 1, y + 1, z), (x, y + 1, z),
      (x, y, z + 1), (x + 1, y, z + 1), (x + 1, y + 1, z + 1), (x, y + 1, z + 1)]"

text \<open>\<^verbatim>\<open>cubeindex\<close> (lines 1390-1398).\<close>

definition cubeindex_of :: "number list \<Rightarrow> number \<Rightarrow> nat" where
  "cubeindex_of v isolevel =
     (let c0 = (0 :: nat);
          c1 = (if v ! 0 < isolevel then c0 OR 1 else c0);
          c2 = (if v ! 1 < isolevel then c1 OR 2 else c1);
          c3 = (if v ! 2 < isolevel then c2 OR 4 else c2);
          c4 = (if v ! 3 < isolevel then c3 OR 8 else c3);
          c5 = (if v ! 4 < isolevel then c4 OR 16 else c4);
          c6 = (if v ! 5 < isolevel then c5 OR 32 else c5);
          c7 = (if v ! 6 < isolevel then c6 OR 64 else c6);
          c8 = (if v ! 7 < isolevel then c7 OR 128 else c7)
      in c8)"

text \<open>
  \<^verbatim>\<open>vertlist\<close> (lines 1402-1415): twelve slots, \<^verbatim>\<open>null\<close> (\<open>None\<close>) unless the edge
  table has the edge's bit.
\<close>

definition vertlist_of ::
  "nat \<Rightarrow> number \<Rightarrow> Vector3 list \<Rightarrow> number list \<Rightarrow> Vector3 option list" where
  "vertlist_of e isolevel p v =
     (let edge = (\<lambda>bit' a b.
            if e AND bit' \<noteq> 0 then Some (vertexInterp isolevel (p ! a) (p ! b) (v ! a) (v ! b))
            else None)
      in [edge 1 0 1, edge 2 1 2, edge 4 2 3, edge 8 3 0,
          edge 16 4 5, edge 32 5 6, edge 64 6 7, edge 128 7 4,
          edge 256 0 4, edge 512 1 5, edge 1024 2 6, edge 2048 3 7])"

text \<open>
  \<^verbatim>\<open>triTable[cubeindex][i]\<close>: \<^verbatim>\<open>undefined\<close> (\<open>None\<close>) past the end of the row; and
  \<^verbatim>\<open>vertlist[j]\<close>, which is \<^verbatim>\<open>undefined\<close> (falsy, as \<^verbatim>\<open>null\<close> is) when \<open>j\<close> is
  \<^verbatim>\<open>undefined\<close>, \<open>-1\<close> or past the twelve slots.
\<close>

definition row_at :: "int list \<Rightarrow> nat \<Rightarrow> int option" where
  "row_at row i = (if i < length row then Some (row ! i) else None)"

definition vert_at :: "Vector3 option list \<Rightarrow> int option \<Rightarrow> Vector3 option" where
  "vert_at vertlist j =
     (case j of None \<Rightarrow> None
      | Some k \<Rightarrow> if 0 \<le> k \<and> nat k < length vertlist then vertlist ! nat k else None)"

text \<open>
  The triangle loop (lines 1417-1424),
  \<^verbatim>\<open>for (let i = 0; this.triTable[cubeindex][i] !== -1; i += 3)\<close>.
  Once \<open>i\<close> is past the end of the row every later read is \<^verbatim>\<open>undefined\<close>, which is
  \<^verbatim>\<open>!== -1\<close>, and nothing is pushed: the loop never exits. That is the result \<open>None\<close>.
\<close>

function triLoop ::
  "int list \<Rightarrow> Vector3 option list \<Rightarrow> nat \<Rightarrow> Vector3 list \<Rightarrow> Vector3 list option" where
  "triLoop row vertlist i vertices =
     (if length row \<le> i then None
      else if row ! i = - 1 then Some vertices
      else
        let v1 = vert_at vertlist (row_at row (i + 2));
            v2 = vert_at vertlist (row_at row (i + 1));
            v3 = vert_at vertlist (row_at row i)
        in triLoop row vertlist (i + 3)
             (case (v1, v2, v3) of
                (Some a, Some b, Some c) \<Rightarrow> vertices @ [a, b, c]
              | _ \<Rightarrow> vertices))"
  by pat_completeness auto
termination
  by (relation "measure (\<lambda>(row, vertlist, i, vertices). length row - i)") auto

declare triLoop.simps [simp del]

text \<open>The body of the innermost loop of \<^verbatim>\<open>run\<close> for the cube at \<open>(x, y, z)\<close>.\<close>

definition cube ::
  "number list \<Rightarrow> int \<times> int \<times> int \<Rightarrow> number \<Rightarrow> int \<times> int \<times> int \<Rightarrow> Vector3 list
     \<Rightarrow> Vector3 list option" where
  "cube data dims isolevel pos vertices =
     (case pos of (x, y, z) \<Rightarrow>
        let p = corners x y z;
            v = map (\<lambda>(a, b, c). getVal data dims a b c) p;
            cubeindex = cubeindex_of v isolevel
        in if edgeTable ! cubeindex = 0 then Some vertices
           else triLoop (triTable ! cubeindex)
                  (vertlist_of (edgeTable ! cubeindex) isolevel (map lattice p) v) 0 vertices)"

text \<open>The cubes in the order the three nested loops visit them (lines 1381-1383).\<close>

definition cubes :: "int \<times> int \<times> int \<Rightarrow> (int \<times> int \<times> int) list" where
  "cubes dims =
     (case dims of (dimX, dimY, dimZ) \<Rightarrow>
        concat (map (\<lambda>z. concat (map (\<lambda>y. map (\<lambda>x. (x, y, z)) [0..dimX - 1 - 1])
                                      [0..dimY - 1 - 1]))
                    [0..dimZ - 1 - 1]))"

fun run_from ::
  "number list \<Rightarrow> int \<times> int \<times> int \<Rightarrow> number \<Rightarrow> (int \<times> int \<times> int) list \<Rightarrow> Vector3 list
     \<Rightarrow> Vector3 list option" where
  "run_from data dims isolevel [] vertices = Some vertices"
| "run_from data dims isolevel (pos # rest) vertices =
     (case cube data dims isolevel pos vertices of
        None \<Rightarrow> None
      | Some vertices' \<Rightarrow> run_from data dims isolevel rest vertices')"

text \<open>\<^verbatim>\<open>MarchingCubes.run\<close> (lines 1372-1429); \<open>None\<close> when a triangle loop never exits.\<close>

definition run :: "number list \<Rightarrow> int \<times> int \<times> int \<Rightarrow> number \<Rightarrow> Vector3 list option" where
  "run data dims isolevel = run_from data dims isolevel (cubes dims) []"

section \<open>Properties\<close>

subsection \<open>Rounding and \<^verbatim>\<open>Math.hypot\<close>\<close>

text \<open>
  The rounding to the nearest double is monotone and idempotent on the non-negative
  numbers and changes a number by at most the factor \<open>1 \<plusminus> 2\<^sup>-\<^sup>5\<^sup>3\<close>.
\<close>

lemma round_to_even_int [simp]: "round_to_even (of_int n) = n"
  by (simp add: round_to_even_def)

lemma round_to_even_near: "\<bar>of_int (round_to_even q) - q\<bar> \<le> 1 / 2"
  unfolding round_to_even_def Let_def by (auto; linarith)

lemma round_to_even_eq:
  assumes "\<bar>q - of_int m\<bar> < 1 / 2"
  shows "round_to_even q = m"
proof -
  have "\<bar>of_int (round_to_even q) - q\<bar> \<le> 1 / 2" by (rule round_to_even_near)
  with assms have "\<bar>(of_int (round_to_even q) :: real) - of_int m\<bar> < 1" by linarith
  then have "\<bar>of_int (round_to_even q - m) :: real\<bar> < 1" by simp
  then have "\<bar>round_to_even q - m\<bar> < 1" by (metis of_int_abs of_int_less_1_iff)
  then show ?thesis by linarith
qed

lemma round_to_even_ge:
  assumes "of_int n \<le> q"
  shows "n \<le> round_to_even q"
proof -
  have "n \<le> \<lfloor>q\<rfloor>" using assms by (simp add: le_floor_iff)
  then show ?thesis unfolding round_to_even_def Let_def by auto
qed

lemma round_to_even_le:
  assumes "q \<le> of_int n"
  shows "round_to_even q \<le> n"
proof (cases "q = of_int n")
  case True
  then show ?thesis by simp
next
  case False
  then have "q < of_int n" using assms by simp
  then have "\<lfloor>q\<rfloor> < n" by (simp add: floor_less_iff)
  then show ?thesis unfolding round_to_even_def Let_def by auto
qed

lemma round_to_even_mono:
  assumes "p \<le> q"
  shows "round_to_even p \<le> round_to_even q"
proof (cases "\<lfloor>p\<rfloor> = \<lfloor>q\<rfloor>")
  case True
  then show ?thesis using assms unfolding round_to_even_def Let_def by auto
next
  case False
  then have "\<lfloor>p\<rfloor> < \<lfloor>q\<rfloor>" using floor_mono [OF assms] by simp
  then have "\<lfloor>p\<rfloor> + 1 \<le> \<lfloor>q\<rfloor>" by simp
  moreover have "round_to_even p \<le> \<lfloor>p\<rfloor> + 1" unfolding round_to_even_def Let_def by auto
  moreover have "\<lfloor>q\<rfloor> \<le> round_to_even q" unfolding round_to_even_def Let_def by auto
  ultimately show ?thesis by linarith
qed


lemma round_double_0 [simp]: "round_double 0 = 0"
  by (simp add: round_double_def)

lemma ulp_scale: "2 powr of_int (k - 52) * 2 ^ 52 = (2 :: real) powr of_int k"
proof -
  have "(2 :: real) powr of_int k = 2 powr (of_int (k - 52) + 52)" by simp
  also have "\<dots> = 2 powr of_int (k - 52) * 2 powr 52" by (rule powr_add)
  finally show ?thesis by simp
qed

lemma powr_next: "(2 :: real) powr of_int (k + 1) = 2 * 2 powr of_int k"
  by (simp add: powr_add)

lemma ulp_bounds:
  "(2 :: real) powr of_int k = 2 ^ 52 * 2 powr of_int (k - 52)"
  "(2 :: real) powr of_int (k + 1) = 2 ^ 53 * 2 powr of_int (k - 52)"
  using ulp_scale [of k] powr_next [of k] by simp_all

lemma round_double_pos:
  assumes "0 < x" and k: "k = \<lfloor>log 2 x\<rfloor>" and u: "u = (2 :: real) powr of_int (k - 52)"
  shows "round_double x = of_int (round_to_even (x / u)) * u"
    and "0 < u" and "2 ^ 52 \<le> x / u" and "x / u < 2 ^ 53"
    and "2 ^ 52 \<le> round_to_even (x / u)" and "round_to_even (x / u) \<le> 2 ^ 53"
proof -
  show "round_double x = of_int (round_to_even (x / u)) * u"
    using assms by (simp add: round_double_def Let_def)
  show pos: "0 < u" by (simp add: u)
  have "2 powr of_int k \<le> x \<and> x < 2 powr of_int (k + 1)"
    using floor_log_eq_powr_iff [of x 2 k] assms(1) k by simp
  then have "u * 2 ^ 52 \<le> x" "x < u * 2 ^ 53"
    using ulp_scale [of k] powr_next [of k] by (simp_all add: u)
  then show a: "2 ^ 52 \<le> x / u" and b: "x / u < 2 ^ 53"
    using pos by (simp_all add: pos_le_divide_eq pos_divide_less_eq mult.commute)
  have "real_of_int (2 ^ 52) \<le> x / u" using a by simp
  then show "2 ^ 52 \<le> round_to_even (x / u)" by (rule round_to_even_ge)
  have "x / u \<le> real_of_int (2 ^ 53)" using b by simp
  then show "round_to_even (x / u) \<le> 2 ^ 53" by (rule round_to_even_le)
qed

lemma floor_log_unique:
  assumes "0 < x" "2 powr of_int k \<le> x" "x < 2 powr of_int (k + 1)"
  shows "\<lfloor>log 2 x\<rfloor> = k"
  using floor_log_eq_powr_iff [of x 2 k] assms by simp

lemma nat_exponent: "(2 :: real) powr of_int (int a - int b) = 2 ^ a / 2 ^ b"
proof -
  have "(2 :: real) powr of_int (int a - int b) = 2 powr (real a - real b)" by simp
  also have "\<dots> = 2 powr real a / 2 powr real b" by (rule powr_diff)
  finally show ?thesis by (simp add: powr_realpow)
qed

text \<open>Evaluation of a rounding: the scaled value is within a half of the integer \<open>m\<close>.\<close>

lemma round_double_eval:
  fixes a b :: nat and x :: real
  assumes lo: "2 ^ 52 * (2 ^ a / 2 ^ b) \<le> x" and hi: "x < 2 ^ 53 * (2 ^ a / 2 ^ b)"
      and near: "\<bar>x * 2 ^ b / 2 ^ a - of_int m\<bar> < 1 / 2"
  shows "round_double x = of_int m * 2 ^ a / 2 ^ b"
proof -
  define k where "k = int a - int b + 52"
  have u: "2 powr of_int (k - 52) = (2 :: real) ^ a / 2 ^ b"
    unfolding k_def using nat_exponent [of a b] by simp
  have pos: "0 < x"
  proof -
    have "(0 :: real) < 2 ^ 52 * (2 ^ a / 2 ^ b)" by simp
    with lo show ?thesis by linarith
  qed
  have s: "2 powr of_int k = 2 ^ 52 * ((2 :: real) ^ a / 2 ^ b)"
    using ulp_scale [of k] u by (simp add: mult.commute)
  have t: "2 powr of_int (k + 1) = 2 ^ 53 * ((2 :: real) ^ a / 2 ^ b)"
    unfolding powr_next s by simp
  have "2 powr of_int k \<le> x"
    unfolding s by (rule lo)
  moreover have "x < 2 powr of_int (k + 1)"
    unfolding t by (rule hi)
  ultimately have k: "k = \<lfloor>log 2 x\<rfloor>" using floor_log_unique [OF pos] by simp
  have "round_double x = of_int (round_to_even (x / (2 ^ a / 2 ^ b))) * (2 ^ a / 2 ^ b)"
    using round_double_pos(1) [OF pos k refl] u by simp
  moreover have "round_to_even (x / (2 ^ a / 2 ^ b)) = m"
    using near by (intro round_to_even_eq) (simp add: field_simps)
  ultimately show ?thesis by simp
qed

lemma round_double_mono:
  assumes "0 \<le> x" "x \<le> y"
  shows "round_double x \<le> round_double y"
proof (cases "x = 0")
  case True
  show ?thesis
  proof (cases "y = 0")
    case True
    with \<open>x = 0\<close> show ?thesis by simp
  next
    case False
    then have y: "0 < y" using assms True by simp
    define k where "k = \<lfloor>log 2 y\<rfloor>"
    define u where "u = (2 :: real) powr of_int (k - 52)"
    note Y = round_double_pos [OF y k_def u_def]
    have "0 \<le> real_of_int (round_to_even (y / u)) * u"
      using Y(2) Y(5) by (intro mult_nonneg_nonneg) simp_all
    then show ?thesis using Y(1) True by simp
  qed
next
  case False
  then have x: "0 < x" using assms by simp
  then have y: "0 < y" using assms by simp
  define k where "k = \<lfloor>log 2 x\<rfloor>"
  define u where "u = (2 :: real) powr of_int (k - 52)"
  define l where "l = \<lfloor>log 2 y\<rfloor>"
  define v where "v = (2 :: real) powr of_int (l - 52)"
  note X = round_double_pos [OF x k_def u_def]
  note Y = round_double_pos [OF y l_def v_def]
  have kl: "k \<le> l" unfolding k_def l_def using x assms(2) by (intro floor_mono) simp
  show ?thesis
  proof (cases "k = l")
    case True
    then have uv: "u = v" by (simp add: u_def v_def)
    have "x / u \<le> y / u" using assms(2) X(2) by (simp add: divide_right_mono)
    then have "round_to_even (x / u) \<le> round_to_even (y / u)" by (rule round_to_even_mono)
    then have "real_of_int (round_to_even (x / u)) * u \<le> real_of_int (round_to_even (y / u)) * u"
      using X(2) by (simp add: mult_right_mono)
    then show ?thesis using X(1) Y(1) uv by simp
  next
    case False
    then have "k + 1 \<le> l" using kl by simp
    then have "(2 :: real) powr of_int (k + 1) \<le> 2 powr of_int l"
      by (intro powr_mono) simp_all
    moreover have "2 powr of_int (k + 1) = u * 2 ^ 53"
      using ulp_scale [of k] powr_next [of k] by (simp add: u_def)
    moreover have "2 powr of_int l = v * 2 ^ 52"
      using ulp_scale [of l] by (simp add: v_def)
    ultimately have m: "u * 2 ^ 53 \<le> v * 2 ^ 52" by simp
    have "real_of_int (round_to_even (x / u)) \<le> 2 ^ 53"
      using X(6) by (metis of_int_le_iff of_int_numeral of_int_power)
    then have a: "real_of_int (round_to_even (x / u)) * u \<le> u * 2 ^ 53"
      using X(2) by (simp add: mult.commute mult_left_mono)
    have "2 ^ 52 \<le> real_of_int (round_to_even (y / v))"
      using Y(5) by (metis of_int_le_iff of_int_numeral of_int_power)
    then have b: "v * 2 ^ 52 \<le> real_of_int (round_to_even (y / v)) * v"
      using Y(2) by (simp add: mult.commute mult_left_mono)
    show ?thesis using a b m X(1) Y(1) by linarith
  qed
qed

lemma round_double_nonneg: "0 \<le> x \<Longrightarrow> 0 \<le> round_double x"
  using round_double_mono [of 0 x] by simp


lemma round_double_idem:
  assumes "0 \<le> x"
  shows "round_double (round_double x) = round_double x"
proof (cases "x = 0")
  case True
  then show ?thesis by simp
next
  case False
  then have x: "0 < x" using assms by simp
  define k where "k = \<lfloor>log 2 x\<rfloor>"
  define u where "u = (2 :: real) powr of_int (k - 52)"
  define n where "n = round_to_even (x / u)"
  note X = round_double_pos [OF x k_def u_def]
  have y: "round_double x = of_int n * u" using X(1) by (simp add: n_def)
  have n_lo: "2 ^ 52 \<le> real_of_int n"
    using X(5) unfolding n_def by (metis of_int_le_iff of_int_numeral of_int_power)
  have n_pos: "0 < real_of_int n" using n_lo by simp
  have ypos: "0 < of_int n * u" using n_pos X(2) by simp
  show ?thesis
  proof (cases "n = 2 ^ 53")
    case True
    then have yv: "of_int n * u = 2 powr of_int (k + 1)"
      using ulp_scale [of k] powr_next [of k] by (simp add: u_def)
    have "2 powr of_int (k + 1) \<le> of_int n * u" using yv by simp
    moreover have "of_int n * u < 2 powr of_int (k + 1 + 1)"
      unfolding yv powr_next [of "k + 1"] by simp
    ultimately have l: "k + 1 = \<lfloor>log 2 (of_int n * u)\<rfloor>"
      using floor_log_unique [OF ypos, of "k + 1"] by simp
    have u2: "(2 :: real) powr of_int (k + 1 - 52) = 2 * u"
      using powr_next [of "k - 52"] by (simp add: u_def)
    have "of_int n * u / (2 * u) = real_of_int (2 ^ 52)"
      using X(2) True by simp
    then have "round_to_even (of_int n * u / (2 * u)) = 2 ^ 52"
      using round_to_even_int [of "2 ^ 52"] by simp
    then have "round_double (of_int n * u) = real_of_int (2 ^ 52) * (2 * u)"
      using round_double_pos(1) [OF ypos l u2 [symmetric]] by simp
    also have "\<dots> = of_int n * u" using True by simp
    finally show ?thesis unfolding y .
  next
    case False
    then have "n < 2 ^ 53" using X(6) by (simp add: n_def)
    then have "real_of_int n < 2 ^ 53"
      by (metis of_int_less_iff of_int_numeral of_int_power)
    then have "of_int n * u < 2 ^ 53 * u" using X(2) by simp
    then have hi: "of_int n * u < 2 powr of_int (k + 1)"
      unfolding ulp_bounds(2) u_def .
    have "2 ^ 52 * u \<le> of_int n * u" using n_lo X(2) by simp
    then have lo: "2 powr of_int k \<le> of_int n * u"
      unfolding ulp_bounds(1) [of k] u_def .
    have l: "k = \<lfloor>log 2 (of_int n * u)\<rfloor>"
      using floor_log_unique [OF ypos lo hi] by simp
    have "of_int n * u / u = of_int n" using X(2) by simp
    then have "round_to_even (of_int n * u / u) = n" by simp
    then have "round_double (of_int n * u) = of_int n * u"
      using round_double_pos(1) [OF ypos l u_def] by simp
    then show ?thesis unfolding y .
  qed
qed

text \<open>A rounding changes a non-negative number by at most the factor \<open>1 \<plusminus> 2\<^sup>-\<^sup>5\<^sup>3\<close>.\<close>

lemma round_double_accurate:
  assumes "0 \<le> x"
  shows "x * (1 - 1 / 2 ^ 53) \<le> round_double x" and "round_double x \<le> x * (1 + 1 / 2 ^ 53)"
proof -
  have "x * (1 - 1 / 2 ^ 53) \<le> round_double x \<and> round_double x \<le> x * (1 + 1 / 2 ^ 53)"
  proof (cases "x = 0")
    case True
    then show ?thesis by simp
  next
    case False
    then have x: "0 < x" using assms by simp
    define k where "k = \<lfloor>log 2 x\<rfloor>"
    define u where "u = (2 :: real) powr of_int (k - 52)"
    define q where "q = x / u"
    note X = round_double_pos [OF x k_def u_def]
    have xq: "x = q * u" using X(2) by (simp add: q_def)
    have n: "\<bar>of_int (round_to_even q) - q\<bar> \<le> 1 / 2" by (rule round_to_even_near)
    have q: "2 ^ 52 \<le> q" using X(3) by (simp add: q_def)
    have "\<bar>of_int (round_to_even q) - q\<bar> \<le> q / 2 ^ 53" using n q by simp
    then have "\<bar>of_int (round_to_even q) - q\<bar> * u \<le> q / 2 ^ 53 * u"
      using X(2) by (intro mult_right_mono) simp_all
    moreover have "\<bar>of_int (round_to_even q) * u - q * u\<bar> = \<bar>of_int (round_to_even q) - q\<bar> * u"
      using X(2) by (simp add: left_diff_distrib [symmetric] abs_mult)
    ultimately have a: "\<bar>of_int (round_to_even q) * u - q * u\<bar> \<le> q * u / 2 ^ 53"
      by simp
    have rx: "round_double x = of_int (round_to_even q) * u"
      using X(1) unfolding q_def .
    have "\<bar>round_double x - x\<bar> \<le> x / 2 ^ 53"
      unfolding rx using a unfolding xq [symmetric] .
    then have "round_double x - x \<le> x / 2 ^ 53" "x - round_double x \<le> x / 2 ^ 53"
      by linarith+
    then show ?thesis by (simp add: algebra_simps)
  qed
  then show "x * (1 - 1 / 2 ^ 53) \<le> round_double x" and "round_double x \<le> x * (1 + 1 / 2 ^ 53)"
    by simp_all
qed

lemma round_double_1 [simp]: "round_double 1 = 1"
  using round_double_eval [of 0 52 1 "2 ^ 52"] by simp

text \<open>
  With two arguments the compensation of the Kahan summation is still zero when the
  second square is added, so the engine's result is the rounded product of the largest
  absolute value and the rounded root of the rounded sum of the two rounded squares.
\<close>

lemma hypot_double_eq:
  "hypot_double a b =
     (let m = max \<bar>a\<bar> \<bar>b\<bar>
      in if m = 0 then 0
         else round_double
                (round_double
                   (sqrt (round_double
                            (round_double (round_double (\<bar>a\<bar> / m) * round_double (\<bar>a\<bar> / m))
                             + round_double (round_double (\<bar>b\<bar> / m) * round_double (\<bar>b\<bar> / m)))))
                 * m))"
proof -
  define m where "m = max \<bar>a\<bar> \<bar>b\<bar>"
  have fm: "foldl (\<lambda>m absValue. if m < absValue then absValue else m) 0 [\<bar>a\<bar>, \<bar>b\<bar>] = m"
    by (simp add: max_def m_def)
  have i: "round_double (round_double (x * x)) = round_double (x * x)" for x :: real
    by (rule round_double_idem) simp
  have k: "fst (foldl (kahan_step m) (0, 0) [\<bar>a\<bar>, \<bar>b\<bar>])
          = round_double
              (round_double (round_double (\<bar>a\<bar> / m) * round_double (\<bar>a\<bar> / m))
               + round_double (round_double (\<bar>b\<bar> / m) * round_double (\<bar>b\<bar> / m)))"
    by (simp add: kahan_step_def Let_def i)
  show ?thesis
    unfolding hypot_double_def Let_def fm m_def [symmetric] case_prod_beta k ..
qed


lemma hypot_double_vertical: "hypot_double 0 b = round_double \<bar>b\<bar>"
  by (simp add: hypot_double_eq Let_def)

lemma hypot_double_ge_max: "round_double (max \<bar>a\<bar> \<bar>b\<bar>) \<le> hypot_double a b"
proof (cases "max \<bar>a\<bar> \<bar>b\<bar> = 0")
  case True
  then have "a = 0" "b = 0" by (simp_all add: max_def split: if_splits)
  then show ?thesis by (simp add: hypot_double_eq)
next
  case False
  define m where "m = max \<bar>a\<bar> \<bar>b\<bar>"
  have mpos: "0 < m" using False unfolding m_def by linarith
  define s1 where "s1 = round_double (round_double (\<bar>a\<bar> / m) * round_double (\<bar>a\<bar> / m))"
  define s2 where "s2 = round_double (round_double (\<bar>b\<bar> / m) * round_double (\<bar>b\<bar> / m))"
  have n1: "0 \<le> s1" "0 \<le> s2" unfolding s1_def s2_def by (simp_all add: round_double_nonneg)
  have "s1 = 1 \<or> s2 = 1"
  proof (cases "\<bar>a\<bar> \<le> \<bar>b\<bar>")
    case True
    then have mb: "\<bar>b\<bar> = m" by (simp add: m_def max_def)
    have r: "\<bar>b\<bar> / m = 1" unfolding mb using mpos by simp
    have "s2 = 1" unfolding s2_def r by simp
    then show ?thesis ..
  next
    case False
    then have ma: "\<bar>a\<bar> = m" by (simp add: m_def max_def)
    have r: "\<bar>a\<bar> / m = 1" unfolding ma using mpos by simp
    have "s1 = 1" unfolding s1_def r by simp
    then show ?thesis ..
  qed
  then have "1 \<le> s1 + s2" using n1 by auto
  then have "round_double 1 \<le> round_double (s1 + s2)" by (intro round_double_mono) simp_all
  then have "1 \<le> sqrt (round_double (s1 + s2))" by simp
  then have "round_double 1 \<le> round_double (sqrt (round_double (s1 + s2)))"
    by (intro round_double_mono) simp_all
  then have "1 * m \<le> round_double (sqrt (round_double (s1 + s2))) * m"
    using mpos by (intro mult_right_mono) simp_all
  then have "round_double m \<le> round_double (round_double (sqrt (round_double (s1 + s2))) * m)"
    using mpos by (intro round_double_mono) simp_all
  moreover have "hypot_double a b = round_double (round_double (sqrt (round_double (s1 + s2))) * m)"
    using False unfolding hypot_double_eq Let_def m_def [symmetric] s1_def s2_def by simp
  ultimately show ?thesis unfolding m_def by simp
qed


lemma round_double_between:
  assumes "0 \<le> lo" "lo \<le> t" "t \<le> hi"
  shows "lo * (1 - 1 / 2 ^ 53) \<le> round_double t" and "round_double t \<le> hi * (1 + 1 / 2 ^ 53)"
proof -
  have t: "0 \<le> t" using assms by simp
  have "lo * (1 - 1 / 2 ^ 53) \<le> t * (1 - 1 / 2 ^ 53)"
    using assms(2) by (intro mult_right_mono) simp_all
  then show "lo * (1 - 1 / 2 ^ 53) \<le> round_double t"
    using round_double_accurate(1) [OF t] by linarith
  have "t * (1 + 1 / 2 ^ 53) \<le> hi * (1 + 1 / 2 ^ 53)"
    using assms(3) by (intro mult_right_mono) simp_all
  then show "round_double t \<le> hi * (1 + 1 / 2 ^ 53)"
    using round_double_accurate(2) [OF t] by linarith
qed

lemma scaled_square:
  fixes x l u n :: real
  assumes "0 \<le> x" "0 \<le> l" "x * l \<le> n" "n \<le> x * u"
  shows "x * x * (l * l * (1 - 1 / 2 ^ 53)) \<le> round_double (n * n)"
    and "round_double (n * n) \<le> x * x * (u * u * (1 + 1 / 2 ^ 53))"
proof -
  have xl: "0 \<le> x * l" using assms(1,2) by simp
  then have n: "0 \<le> n" using assms(3) by linarith
  have lo: "(x * l) * (x * l) \<le> n * n"
    using xl assms(3) n by (intro mult_mono) simp_all
  have hi: "n * n \<le> (x * u) * (x * u)"
    using assms(4) n by (intro mult_mono) simp_all
  have "0 \<le> (x * l) * (x * l)" by simp
  note B = round_double_between [OF this lo hi]
  show "x * x * (l * l * (1 - 1 / 2 ^ 53)) \<le> round_double (n * n)"
    using B(1) by (simp add: mult_ac)
  show "round_double (n * n) \<le> x * x * (u * u * (1 + 1 / 2 ^ 53))"
    using B(2) by (simp add: mult_ac)
qed

text \<open>
  The result of \<open>hypot_double\<close> is the exact root of the sum of squares up to four
  roundings.
\<close>

lemma hypot_double_accurate:
  "sqrt (a * a + b * b) * (1 - 1 / 2 ^ 53) ^ 4 \<le> hypot_double a b"
  "hypot_double a b \<le> sqrt (a * a + b * b) * (1 + 1 / 2 ^ 53) ^ 4"
proof -
  define L :: real where "L = 1 - 1 / 2 ^ 53"
  define U :: real where "U = 1 + 1 / 2 ^ 53"
  have L: "0 \<le> L" and U: "0 \<le> U" by (simp_all add: L_def U_def)
  have "sqrt (a * a + b * b) * L ^ 4 \<le> hypot_double a b
      \<and> hypot_double a b \<le> sqrt (a * a + b * b) * U ^ 4"
  proof (cases "max \<bar>a\<bar> \<bar>b\<bar> = 0")
    case True
    then have "a = 0" "b = 0" by (simp_all add: max_def split: if_splits)
    then show ?thesis by (simp add: hypot_double_eq)
  next
    case False
    define m where "m = max \<bar>a\<bar> \<bar>b\<bar>"
    have mpos: "0 < m" using False unfolding m_def by linarith
    define x where "x = \<bar>a\<bar> / m"
    define y where "y = \<bar>b\<bar> / m"
    have x: "0 \<le> x" and y: "0 \<le> y" using mpos by (simp_all add: x_def y_def)
    define s1 where "s1 = round_double (round_double x * round_double x)"
    define s2 where "s2 = round_double (round_double y * round_double y)"
    define S where "S = round_double (s1 + s2)"
    define q where "q = round_double (sqrt S)"
    define h where "h = sqrt (x * x + y * y)"
    have h0: "0 \<le> h" by (simp add: h_def)
    have res: "hypot_double a b = round_double (q * m)"
      using False unfolding hypot_double_eq Let_def m_def [symmetric] q_def S_def s1_def s2_def
        x_def y_def by simp
    have nx: "x * L \<le> round_double x" "round_double x \<le> x * U"
      using round_double_accurate [OF x] by (simp_all add: L_def U_def)
    have ny: "y * L \<le> round_double y" "round_double y \<le> y * U"
      using round_double_accurate [OF y] by (simp_all add: L_def U_def)
    note sx = scaled_square [OF x L nx, folded s1_def L_def U_def]
    note sy = scaled_square [OF y L ny, folded s2_def L_def U_def]
    have lo: "(x * x + y * y) * L ^ 3 \<le> s1 + s2"
      using sx(1) sy(1) by (simp add: algebra_simps power3_eq_cube)
    have hi: "s1 + s2 \<le> (x * x + y * y) * U ^ 3"
      using sx(2) sy(2) by (simp add: algebra_simps power3_eq_cube)
    have "0 \<le> (x * x + y * y) * L ^ 3" using L by simp
    note B = round_double_between [OF this lo hi, folded S_def L_def U_def]
    have Slo: "(x * x + y * y) * L ^ 4 \<le> S" using B(1) by (simp add: power_def mult_ac)
    have Shi: "S \<le> (x * x + y * y) * U ^ 4" using B(2) by (simp add: power_def mult_ac)
    have r: "sqrt ((x * x + y * y) * c ^ 4) = h * c\<^sup>2" if "0 \<le> c" for c :: real
    proof -
      have "c ^ 4 = (c\<^sup>2)\<^sup>2" by simp
      then have "sqrt (c ^ 4) = \<bar>c\<^sup>2\<bar>" by (simp only: real_sqrt_abs)
      then have "sqrt (c ^ 4) = c\<^sup>2" by simp
      then show ?thesis unfolding h_def real_sqrt_mult by (simp only:)
    qed
    have qlo: "h * L\<^sup>2 \<le> sqrt S" using real_sqrt_le_mono [OF Slo] r [OF L] by simp
    have qhi: "sqrt S \<le> h * U\<^sup>2" using real_sqrt_le_mono [OF Shi] r [OF U] by simp
    have "0 \<le> h * L\<^sup>2" using h0 by simp
    note Q = round_double_between [OF this qlo qhi, folded q_def L_def U_def]
    have plo: "h * L\<^sup>2 * L * m \<le> q * m" using Q(1) mpos by (intro mult_right_mono) simp_all
    have phi: "q * m \<le> h * U\<^sup>2 * U * m" using Q(2) mpos by (intro mult_right_mono) simp_all
    have "0 \<le> h * L\<^sup>2 * L * m" using h0 L mpos by simp
    note R = round_double_between [OF this plo phi, folded L_def U_def]
    have hm: "h * m = sqrt (a * a + b * b)"
    proof -
      have "x * x + y * y = (a * a + b * b) / (m * m)"
        by (simp add: x_def y_def add_divide_distrib)
      then have "h = sqrt (a * a + b * b) / m"
        using mpos by (simp add: h_def real_sqrt_divide)
      then show ?thesis using mpos by simp
    qed
    have "h * L\<^sup>2 * L * m * L = h * m * L ^ 4" by (simp add: power_def mult_ac)
    moreover have "h * U\<^sup>2 * U * m * U = h * m * U ^ 4" by (simp add: power_def mult_ac)
    ultimately show ?thesis using R res hm by simp
  qed
  then show "sqrt (a * a + b * b) * (1 - 1 / 2 ^ 53) ^ 4 \<le> hypot_double a b"
    and "hypot_double a b \<le> sqrt (a * a + b * b) * (1 + 1 / 2 ^ 53) ^ 4"
    by (simp_all add: L_def U_def)
qed


lemma round_double_sqrt_eval:
  fixes a b :: nat and S :: real
  assumes lo: "(2 ^ 52 * (2 ^ a / 2 ^ b))\<^sup>2 \<le> S" and hi: "S < (2 ^ 53 * (2 ^ a / 2 ^ b))\<^sup>2"
      and below: "((of_int m - 1 / 2) * (2 ^ a / 2 ^ b))\<^sup>2 < S"
      and above: "S < ((of_int m + 1 / 2) * (2 ^ a / 2 ^ b))\<^sup>2"
      and m: "1 \<le> m"
  shows "round_double (sqrt S) = of_int m * 2 ^ a / 2 ^ b"
proof -
  define u :: real where "u = 2 ^ a / 2 ^ b"
  have u: "0 < u" by (simp add: u_def)
  have 1: "2 ^ 52 * u \<le> sqrt S"
    using lo unfolding u_def [symmetric] by (rule real_le_rsqrt)
  have 2: "sqrt S < 2 ^ 53 * u"
    using hi u unfolding u_def [symmetric] by (intro real_less_lsqrt) simp_all
  have 3: "(of_int m - 1 / 2) * u < sqrt S"
    using below unfolding u_def [symmetric] by (rule real_less_rsqrt)
  have "0 \<le> (real_of_int m + 1 / 2) * u" using m u by simp
  then have 4: "sqrt S < (of_int m + 1 / 2) * u"
    using above unfolding u_def [symmetric] by (intro real_less_lsqrt) simp_all
  have "of_int m - 1 / 2 < sqrt S / u" using 3 u by (simp add: pos_less_divide_eq)
  moreover have "sqrt S / u < of_int m + 1 / 2" using 4 u by (simp add: pos_divide_less_eq)
  ultimately have "\<bar>sqrt S / u - of_int m\<bar> < 1 / 2" by linarith
  then have "\<bar>sqrt S * 2 ^ b / 2 ^ a - of_int m\<bar> < 1 / 2"
    by (simp add: u_def)
  then show ?thesis
    using round_double_eval [of a b "sqrt S" m] 1 2 by (simp add: u_def)
qed

lemma hypot_double_steps:
  assumes "max \<bar>a\<bar> \<bar>b\<bar> = m" "m \<noteq> 0"
      and "round_double (\<bar>a\<bar> / m) = n1" "round_double (\<bar>b\<bar> / m) = n2"
      and "round_double (n1 * n1) = s1" "round_double (n2 * n2) = s2"
      and "round_double (s1 + s2) = S" "round_double (sqrt S) = q" "round_double (q * m) = r"
  shows "hypot_double a b = r"
  unfolding hypot_double_eq Let_def assms using assms(2) by simp

lemma hypot_double_zero [simp]: "hypot_double 0 0 = 0"
  by (simp add: hypot_double_eq)

text \<open>Some doubles, and the roundings of 0.4 and 1.1.\<close>

lemma round_double_examples [simp]:
  "round_double 2 = 2"
  "round_double 3 = 3"
  "round_double (3 / 2) = 3 / 2"
  "round_double (1 / 2) = 1 / 2"
  "round_double (5 / 2) = 5 / 2"
  "round_double (15 / 4) = 15 / 4"
  "round_double (9 / 2) = 9 / 2"
  "round_double (2 / 5) = 7205759403792794 / 2 ^ 54"
  "round_double (11 / 10) = 4953959590107546 / 2 ^ 52"
  using round_double_eval [of 0 51 2 4503599627370496]
    round_double_eval [of 0 51 3 6755399441055744]
    round_double_eval [of 0 52 "3 / 2" 6755399441055744]
    round_double_eval [of 0 53 "1 / 2" 4503599627370496]
    round_double_eval [of 0 51 "5 / 2" 5629499534213120]
    round_double_eval [of 0 51 "15 / 4" 8444249301319680]
    round_double_eval [of 0 50 "9 / 2" 5066549580791808]
    round_double_eval [of 0 54 "2 / 5" 7205759403792794]
    round_double_eval [of 0 52 "11 / 10" 4953959590107546]
  by simp_all

lemma hypot_vertical: "Math_hypot (Fin 0) (Fin b) = Fin (round_double \<bar>b\<bar>)"
  by (simp add: hypot_double_vertical)

subsection \<open>Validation and gathering of the form\<close>

text \<open>
  A row whose depth is below its total radius fails the validation, and one failing row
  stops \<^verbatim>\<open>handleCalculate\<close> before anything is gathered or solved.
\<close>

lemma validatePipeRow_rejects_shallow:
  assumes "ftToM (or_else (row_pipe_z row) (Fin 0))
             < inToM (or_else (row_pipe_od row) (Fin 0) / Fin 2
                      + or_else (row_pipe_insulation_thickness row) (Fin 0)
                      + or_else (row_pipe_bedding_thickness row) (Fin 0))"
  shows "\<not> validatePipeRow row"
  using assms by (simp add: validatePipeRow_def Let_def)

lemma handleCalculate_blocks_invalid_rows:
  assumes "row \<in> set rows" "\<not> validatePipeRow row"
  shows "handleCalculate rows soilLayers soilTempInput = Inl PipeConfigurationErrors"
  using assms by (auto simp: handleCalculate_def Let_def list_ex_iff)

text \<open>
  C6 (validation rejects a pipe unless its depth strictly exceeds its total radius).
  The test on line 553 is \<^verbatim>\<open>z_m < totalRadius_m\<close>, so a depth equal to the radius is
  accepted, against the message the function itself shows ("must be greater than"):
  the row at 5 ft with a 60 in total radius validates and the calculation runs.
\<close>

theorem validatePipeRow_accepts_depth_equal_radius:
  "validatePipeRow touching_row
   \<and> ftToM (row_pipe_z touching_row)
       = inToM (row_pipe_od touching_row / Fin 2 + row_pipe_insulation_thickness touching_row
                + row_pipe_bedding_thickness touching_row)
   \<and> handleCalculate [touching_row] two_layers (Fin 63)
       = Inr (calculateTemperatures (getPipes [touching_row]) two_layers (FtoC (Fin 63)))"
  by (simp add: validatePipeRow_def touching_row_def handleCalculate_def or_else_def ftToM_def
        inToM_def Let_def)

text \<open>
  C7 (a heat source without a temperature is rejected as a configuration error before
  the solver runs). As stated this fails: a heat-source row with a blank temperature
  field is given 0 degrees Fahrenheit, -160/9 degrees Celsius, and the calculation runs.
\<close>

theorem blank_temperature_is_solved:
  "row_pipe_role blank_temp_row = heat_source
   \<and> row_pipe_temp blank_temp_row = NaN
   \<and> map temp (getPipes [blank_temp_row]) = [Some (Fin (- 160 / 9))]
   \<and> handleCalculate [blank_temp_row] two_layers (Fin 63)
       = Inr (calculateTemperatures (getPipes [blank_temp_row]) two_layers (FtoC (Fin 63)))"
  by (simp add: blank_temp_row_def getPipes_def getPipe_def handleCalculate_def validatePipeRow_def
        or_else_def ftToM_def inToM_def FtoC_def Let_def minus_number_def)

text \<open>
  C7 as amended: \<^verbatim>\<open>getPipes\<close> gives every heat-source pipe a temperature, the
  conversion of the field's value or of 0 when the field is blank, zero or not a number;
  no configuration error exists, and \<^verbatim>\<open>handleCalculate\<close> runs the calculation whenever
  every row passes the geometric validation.
\<close>

theorem getPipes_gives_every_heat_source_a_temperature:
  assumes "row_pipe_role row = heat_source"
  shows "temp (getPipe row) = Some (FtoC (or_else (row_pipe_temp row) (Fin 0)))
       \<and> (\<not> truthy (row_pipe_temp row) \<longrightarrow> temp (getPipe row) = Some (Fin (- 160 / 9)))
       \<and> (list_all validatePipeRow rows \<longrightarrow>
            handleCalculate rows soilLayers soilTempInput
              = Inr (calculateTemperatures (getPipes rows) soilLayers
                       (FtoC (or_else soilTempInput (Fin 0)))))"
  using assms
  by (auto simp: getPipe_def handleCalculate_def or_else_def FtoC_def Let_def minus_number_def
        list_ex_iff list_all_iff)

theorem getPipes_gives_every_heat_source_a_temperature_witness:
  "row_pipe_role blank_temp_row = heat_source
   \<and> \<not> truthy (row_pipe_temp blank_temp_row)
   \<and> list_all validatePipeRow [blank_temp_row]
   \<and> temp (getPipe blank_temp_row) = Some (Fin (- 160 / 9))
   \<and> handleCalculate [blank_temp_row] [] NaN
       = Inr (calculateTemperatures (getPipes [blank_temp_row]) [] (FtoC (Fin 0)))"
proof -
  have h: "row_pipe_role blank_temp_row = heat_source"
    by (simp add: blank_temp_row_def)
  have v: "list_all validatePipeRow [blank_temp_row]"
    by (simp add: blank_temp_row_def validatePipeRow_def or_else_def ftToM_def inToM_def Let_def)
  have t: "\<not> truthy (row_pipe_temp blank_temp_row)"
    by (simp add: blank_temp_row_def)
  show ?thesis
    using h v t
      getPipes_gives_every_heat_source_a_temperature [OF h, of "[blank_temp_row]" "[]" NaN]
    by (simp add: or_else_def FtoC_def minus_number_def)
qed

subsection \<open>Soil model\<close>

text \<open>
  C8 (for coincident points the path query returns the conductivity at the point's
  depth). As stated this fails: at depth 2 m, inside the second layer, the path query
  returns the conductivity of the first layer.
\<close>

theorem coincident_path_ignores_depth:
  "Math_hypot (pt_x \<lparr>pt_x = Fin 0, pt_z = Fin 2\<rparr> - pt_x \<lparr>pt_x = Fin 0, pt_z = Fin 2\<rparr>)
      (pt_z \<lparr>pt_x = Fin 0, pt_z = Fin 2\<rparr> - pt_z \<lparr>pt_x = Fin 0, pt_z = Fin 2\<rparr>) < Fin (1 / 10 ^ 6)
   \<and> getEffectiveKForPath \<lparr>pt_x = Fin 0, pt_z = Fin 2\<rparr> \<lparr>pt_x = Fin 0, pt_z = Fin 2\<rparr> two_layers = Fin 1
   \<and> getSoilKAtPoint (Fin 0) (Fin 2) two_layers = Fin 2"
  by (simp add: getEffectiveKForPath_def getSoilKAtPoint_def two_layers_def
        first_layer_k_or_default_def or_else_def minus_number_def Let_def)

text \<open>
  C8 as amended: for points closer than \<open>1e-6\<close> the path query returns the conductivity
  of the first soil layer, or 1.5 when there is no layer or that conductivity is zero or
  \<open>NaN\<close>; this is the conductivity at the point's depth when the depth lies in the
  first layer.
\<close>

theorem coincident_path_first_layer:
  assumes "Math_hypot (pt_x p2 - pt_x p1) (pt_z p2 - pt_z p1) < Fin (1 / 10 ^ 6)"
  shows "getEffectiveKForPath p1 p2 soilLayers
           = (case soilLayers of
                [] \<Rightarrow> Fin (15 / 10)
              | layer # rest \<Rightarrow> if truthy (layer_k layer) then layer_k layer else Fin (15 / 10))
       \<and> (soilLayers \<noteq> [] \<and> truthy (layer_k (hd soilLayers))
            \<and> depth_top (hd soilLayers) \<le> pt_z p1 \<and> pt_z p1 < depth_bottom (hd soilLayers)
          \<longrightarrow> getEffectiveKForPath p1 p2 soilLayers
                = getSoilKAtPoint (pt_x p1) (pt_z p1) soilLayers)"
  using assms
  by (auto simp: getEffectiveKForPath_def getSoilKAtPoint_def
        first_layer_k_or_default_def or_else_def Let_def split: list.splits)

theorem coincident_path_first_layer_witness:
  "Math_hypot (pt_x \<lparr>pt_x = Fin 0, pt_z = Fin (1 / 2)\<rparr> - pt_x \<lparr>pt_x = Fin 0, pt_z = Fin (1 / 2)\<rparr>)
      (pt_z \<lparr>pt_x = Fin 0, pt_z = Fin (1 / 2)\<rparr> - pt_z \<lparr>pt_x = Fin 0, pt_z = Fin (1 / 2)\<rparr>)
     < Fin (1 / 10 ^ 6)
   \<and> two_layers \<noteq> [] \<and> truthy (layer_k (hd two_layers))
   \<and> depth_top (hd two_layers) \<le> Fin (1 / 2) \<and> Fin (1 / 2) < depth_bottom (hd two_layers)
   \<and> getEffectiveKForPath \<lparr>pt_x = Fin 0, pt_z = Fin (1 / 2)\<rparr> \<lparr>pt_x = Fin 0, pt_z = Fin (1 / 2)\<rparr>
       two_layers = Fin 1
   \<and> getSoilKAtPoint (Fin 0) (Fin (1 / 2)) two_layers = Fin 1"
proof -
  have h: "Math_hypot (pt_x \<lparr>pt_x = Fin 0, pt_z = Fin (1 / 2)\<rparr> - pt_x \<lparr>pt_x = Fin 0, pt_z = Fin (1 / 2)\<rparr>)
      (pt_z \<lparr>pt_x = Fin 0, pt_z = Fin (1 / 2)\<rparr> - pt_z \<lparr>pt_x = Fin 0, pt_z = Fin (1 / 2)\<rparr>)
     < Fin (1 / 10 ^ 6)"
    by (simp add: minus_number_def)
  show ?thesis
    using h coincident_path_first_layer [OF h, of two_layers]
    by (simp add: two_layers_def getSoilKAtPoint_def)
qed

subsection \<open>Field evaluator: above the ground\<close>

text \<open>The example scene pipes are what \<^verbatim>\<open>createSceneData\<close> builds from the example pipes.\<close>

lemma scene_of_example_pipes:
  "warm_source = scenePipe insulated_pipe (Fin 120) (Some (Fin 100))
   \<and> steam_crossing = scenePipe steam_pipe (Fin 200) (Some (Fin 400))"
  by (simp add: warm_source_def steam_crossing_def scenePipe_def insulated_pipe_def steam_pipe_def)

text \<open>
  A point above the ground is outside every pipe that lies deeper than its radius: the
  engine's distance is at least the rounded vertical offset, which is at least the
  depth of the pipe.
\<close>

lemma hypot_double_beyond_depth:
  assumes "a < 0" "c < b" "0 \<le> c" "round_double b = b"
  shows "\<not> hypot_double d (a - b) \<le> c"
proof -
  have "round_double b \<le> round_double \<bar>a - b\<bar>"
    using assms by (intro round_double_mono) simp_all
  also have "\<dots> \<le> round_double (max \<bar>d\<bar> \<bar>a - b\<bar>)"
    by (intro round_double_mono) simp_all
  also have "\<dots> \<le> hypot_double d (a - b)"
    by (rule hypot_double_ge_max)
  finally show ?thesis using assms by simp
qed

lemma above_ground_outside_pipe:
  assumes "z < Fin 0" "Fin 0 \<le> rb" "rb < pz" "is_double pz"
  shows "\<not> Math_hypot dx (z - pz) \<le> rb"
  using assms
  by (cases z; cases pz; cases rb; cases dx)
     (simp_all add: minus_number_def is_double_def hypot_double_beyond_depth)

lemma inside_pipes_above_ground:
  assumes "z < Fin 0"
      and "\<forall>p \<in> set pipes. Fin 0 \<le> r_bed p \<and> r_bed p < sp_z p \<and> is_double (sp_z p)"
  shows "inside_pipes x z T layers' pipes = None"
  using assms(2)
proof (induction pipes)
  case Nil
  then show ?case by simp
next
  case (Cons p ps)
  then have "Fin 0 \<le> r_bed p" "r_bed p < sp_z p" "is_double (sp_z p)" by simp_all
  then have "\<not> distToCenter x z p \<le> r_bed p"
    using assms(1) by (simp add: distToCenter_def above_ground_outside_pipe)
  with Cons show ?case by (simp add: Let_def)
qed

text \<open>
  A source whose computed image distance does not exceed its computed real distance adds
  nothing, and the second loop leaves the total at 0 when that holds of every source.
\<close>

lemma source_step_image_not_farther:
  assumes "\<not> Math_max (distToCenter x z s) (r_bed s)
               < (if sp_orientation s = parallel then Math_hypot (x - sp_x s) (z + sp_z s)
                  else Math_hypot (Fin 0 - sp_y s) (z + sp_z s))"
  shows "source_step x z layers' t s = t"
  using assms
  by (cases "sp_orientation s = parallel")
     (simp_all add: source_step_def source_geometry_def distToCenter_def Let_def)

lemma foldl_source_step_image_not_farther:
  assumes "\<forall>s \<in> set sources.
             \<not> Math_max (distToCenter x z s) (r_bed s)
                 < (if sp_orientation s = parallel then Math_hypot (x - sp_x s) (z + sp_z s)
                    else Math_hypot (Fin 0 - sp_y s) (z + sp_z s))"
  shows "foldl (source_step x z layers') t sources = t"
  using assms
  by (induction sources arbitrary: t) (simp_all add: source_step_image_not_farther)

lemma plus_zero_finite:
  "Number_isFinite (T + Fin 0) \<Longrightarrow> T + Fin 0 = T"
  by (cases T) simp_all

lemma soil_temperature_when_no_image_farther:
  assumes "inside_pipes x z (T_soil S) (layers S) (scene_pipes S) = None"
      and "\<forall>s \<in> set (scene_pipes S). isSource s \<and> sp_Q s \<noteq> None \<longrightarrow>
             \<not> Math_max (distToCenter x z s) (r_bed s)
                 < (if sp_orientation s = parallel then Math_hypot (x - sp_x s) (z + sp_z s)
                    else Math_hypot (Fin 0 - sp_y s) (z + sp_z s))"
  shows "calculateTemperatureAtPoint x z S = T_soil S"
proof -
  have "totalTempRise_at x z (layers S) (scene_pipes S) = Fin 0"
    unfolding totalTempRise_at_def Let_def
    using assms(2) by (intro foldl_source_step_image_not_farther) auto
  then show ?thesis
    using assms(1) by (simp add: calculateTemperatureAtPoint_def Let_def plus_zero_finite)
qed

text \<open>
  The engine's distances are in the order of the exact ones when the exact squares
  differ by more than the rounding: each distance is its exact value up to four roundings,
  and eight roundings change a square by less than the factor \<open>1 + 2\<^sup>-\<^sup>4\<^sup>8\<close>.
\<close>

lemma eight_roundings:
  "((1 :: real) + 1 / 2 ^ 53) ^ 8 \<le> (1 + 1 / 2 ^ 48) * (1 - 1 / 2 ^ 53) ^ 8"
  by (simp add: power_divide)

lemma sqrt_times_eighth_power:
  fixes A c :: real
  assumes "0 \<le> c"
  shows "sqrt (A * c ^ 8) = sqrt A * c ^ 4"
proof -
  have "c ^ 8 = (c ^ 4)\<^sup>2" by simp
  then have "sqrt (c ^ 8) = \<bar>c ^ 4\<bar>" by (simp only: real_sqrt_abs)
  then have "sqrt (c ^ 8) = c ^ 4" using assms by simp
  then show ?thesis unfolding real_sqrt_mult by (simp only:)
qed

lemma hypot_double_margin:
  assumes "(d * d + i * i) * (1 + 1 / 2 ^ 48) \<le> d * d + r * r"
  shows "hypot_double d i \<le> hypot_double d r"
proof -
  define A where "A = d * d + i * i"
  define B where "B = d * d + r * r"
  define L :: real where "L = 1 - 1 / 2 ^ 53"
  define U :: real where "U = 1 + 1 / 2 ^ 53"
  have L: "0 \<le> L" and U: "0 \<le> U" by (simp_all add: L_def U_def)
  have A: "0 \<le> A" by (simp add: A_def)
  have "A * U ^ 8 \<le> A * ((1 + 1 / 2 ^ 48) * L ^ 8)"
    using eight_roundings A unfolding L_def U_def by (intro mult_left_mono)
  also have "\<dots> = A * (1 + 1 / 2 ^ 48) * L ^ 8" by simp
  also have "\<dots> \<le> B * L ^ 8"
    using assms L unfolding A_def B_def by (intro mult_right_mono) simp_all
  finally have "sqrt (A * U ^ 8) \<le> sqrt (B * L ^ 8)" by (rule real_sqrt_le_mono)
  then have "sqrt A * U ^ 4 \<le> sqrt B * L ^ 4"
    by (simp only: sqrt_times_eighth_power [OF U] sqrt_times_eighth_power [OF L])
  moreover have "hypot_double d i \<le> sqrt A * U ^ 4"
    unfolding A_def U_def by (rule hypot_double_accurate(2))
  moreover have "sqrt B * L ^ 4 \<le> hypot_double d r"
    unfolding B_def L_def by (rule hypot_double_accurate(1))
  ultimately show ?thesis by linarith
qed

lemma max_keeps_order: "\<not> hr < hi \<Longrightarrow> \<not> Math_max hr rb < hi"
  by (cases hr; cases rb; cases hi) auto

lemma image_not_farther_by_margin:
  assumes "(dx * dx + (z + pz) * (z + pz)) * Fin (1 + 1 / 2 ^ 48)
             \<le> dx * dx + (z - pz) * (z - pz)"
  shows "\<not> Math_max (Math_hypot dx (z - pz)) rb < Math_hypot dx (z + pz)"
proof (rule max_keeps_order)
  show "\<not> Math_hypot dx (z - pz) < Math_hypot dx (z + pz)"
  proof (cases dx; cases z; cases pz)
    fix d a b
    assume e: "dx = Fin d" "z = Fin a" "pz = Fin b"
    with assms have "(d * d + (a + b) * (a + b)) * (1 + 1 / 2 ^ 48) \<le> d * d + (a - b) * (a - b)"
      by (simp add: minus_number_def)
    then have "hypot_double d (a + b) \<le> hypot_double d (a - b)"
      by (rule hypot_double_margin)
    then show ?thesis using e by (simp add: minus_number_def)
  qed (use assms in \<open>simp_all add: minus_number_def\<close>)
qed

text \<open>The engine's two distances of the deep source from 0 m across, \<open>2\<^sup>-\<^sup>5\<^sup>1\<close> m above the ground.\<close>

lemma hypot_double_real_example:
  "hypot_double (- (59 / 16)) (- (1 / 2 ^ 51) - 15 / 4) = 5921436791245779 / 2 ^ 50"
proof (rule hypot_double_steps)
  show "max \<bar>- (59 / 16 :: real)\<bar> \<bar>- (1 / 2 ^ 51) - 15 / 4\<bar> = 8444249301319681 / 2 ^ 51"
    by simp
  show "(8444249301319681 / 2 ^ 51 :: real) \<noteq> 0" by simp
  show "round_double (\<bar>- (59 / 16)\<bar> / (8444249301319681 / 2 ^ 51)) = 8857079267161974 / 2 ^ 53"
    using round_double_eval [of 0 53 "\<bar>- (59 / 16)\<bar> / (8444249301319681 / 2 ^ 51)" 8857079267161974]
    by simp
  show "round_double (\<bar>- (1 / 2 ^ 51) - 15 / 4\<bar> / (8444249301319681 / 2 ^ 51)) = 1"
    by simp
  show "round_double (8857079267161974 / 2 ^ 53 * (8857079267161974 / 2 ^ 53))
          = 8709461279375940 / 2 ^ 53"
    using round_double_eval [of 0 53 "8857079267161974 / 2 ^ 53 * (8857079267161974 / 2 ^ 53)"
        8709461279375940]
    by simp
  show "round_double (1 * 1) = 1" by simp
  show "round_double (8709461279375940 / 2 ^ 53 + 1) = 8858330267058466 / 2 ^ 52"
    using round_double_eval [of 0 52 "8709461279375940 / 2 ^ 53 + 1" 8858330267058466]
    by simp
  show "round_double (sqrt (8858330267058466 / 2 ^ 52)) = 6316199243995497 / 2 ^ 52"
    using round_double_sqrt_eval [of 0 52 "8858330267058466 / 2 ^ 52" 6316199243995497]
    by (simp add: power2_eq_square)
  show "round_double (6316199243995497 / 2 ^ 52 * (8444249301319681 / 2 ^ 51))
          = 5921436791245779 / 2 ^ 50"
    using round_double_eval [of 0 50 "6316199243995497 / 2 ^ 52 * (8444249301319681 / 2 ^ 51)"
        5921436791245779]
    by simp
qed

lemma hypot_double_image_example:
  "hypot_double (- (59 / 16)) (- (1 / 2 ^ 51) + 15 / 4) = 5921436791245780 / 2 ^ 50"
proof (rule hypot_double_steps)
  show "max \<bar>- (59 / 16 :: real)\<bar> \<bar>- (1 / 2 ^ 51) + 15 / 4\<bar> = 8444249301319679 / 2 ^ 51"
    by simp
  show "(8444249301319679 / 2 ^ 51 :: real) \<noteq> 0" by simp
  show "round_double (\<bar>- (59 / 16)\<bar> / (8444249301319679 / 2 ^ 51)) = 8857079267161977 / 2 ^ 53"
    using round_double_eval [of 0 53 "\<bar>- (59 / 16)\<bar> / (8444249301319679 / 2 ^ 51)" 8857079267161977]
    by simp
  show "round_double (\<bar>- (1 / 2 ^ 51) + 15 / 4\<bar> / (8444249301319679 / 2 ^ 51)) = 1"
    by simp
  show "round_double (8857079267161977 / 2 ^ 53 * (8857079267161977 / 2 ^ 53))
          = 8709461279375946 / 2 ^ 53"
    using round_double_eval [of 0 53 "8857079267161977 / 2 ^ 53 * (8857079267161977 / 2 ^ 53)"
        8709461279375946]
    by simp
  show "round_double (1 * 1) = 1" by simp
  show "round_double (8709461279375946 / 2 ^ 53 + 1) = 8858330267058469 / 2 ^ 52"
    using round_double_eval [of 0 52 "8709461279375946 / 2 ^ 53 + 1" 8858330267058469]
    by simp
  show "round_double (sqrt (8858330267058469 / 2 ^ 52)) = 6316199243995499 / 2 ^ 52"
    using round_double_sqrt_eval [of 0 52 "8858330267058469 / 2 ^ 52" 6316199243995499]
    by (simp add: power2_eq_square)
  show "round_double (6316199243995499 / 2 ^ 52 * (8444249301319679 / 2 ^ 51))
          = 5921436791245780 / 2 ^ 50"
    using round_double_eval [of 0 50 "6316199243995499 / 2 ^ 52 * (8444249301319679 / 2 ^ 51)"
        5921436791245780]
    by simp
qed

lemma deep_distances [simp]:
  "hypot_double (- (59 / 16)) (- (8444249301319681 / 2251799813685248))
     = 5921436791245779 / 1125899906842624"
  "hypot_double (- (59 / 16)) (8444249301319679 / 2251799813685248)
     = 5921436791245780 / 1125899906842624"
  using hypot_double_real_example hypot_double_image_example by simp_all

text \<open>
  A path whose hundred sample depths all have the same positive conductivity has that
  conductivity.
\<close>

lemma foldl_path_step_uniform:
  assumes "\<forall>i < n. getSoilKAtPoint (Fin 0)
                      (z1 + (Fin (real i) + Fin (5 / 10)) / Fin (real steps) * (z2 - z1)) L = Fin k"
      and "0 < k"
  shows "foldl (path_step (Fin len) z1 z2 L) (Fin t) [0..<n]
           = Fin (t + real n * (len / real steps / k))"
  using assms(1)
proof (induction n)
  case 0
  then show ?case by simp
next
  case (Suc n)
  define F where "F = path_step (Fin len) z1 z2 L"
  have IH: "foldl F (Fin t) [0..<n] = Fin (t + real n * (len / real steps / k))"
    unfolding F_def using Suc by simp
  have "getSoilKAtPoint (Fin 0)
          (z1 + (Fin (real n) + Fin (5 / 10)) / Fin (real steps) * (z2 - z1)) L = Fin k"
    using Suc.prems by simp
  then have step: "F (Fin t') n = Fin (t' + len / real steps / k)" for t'
    unfolding F_def using assms(2) by (simp add: path_step_def Let_def steps_def)
  have next_sample: "t + real n * c + c = t + real (Suc n) * c" for c :: real
    by (simp add: distrib_right)
  have "foldl F (Fin t) [0..<Suc n] = F (foldl F (Fin t) [0..<n]) n" by simp
  also have "\<dots> = Fin (t + real n * (len / real steps / k) + len / real steps / k)"
    unfolding IH step ..
  also have "\<dots> = Fin (t + real (Suc n) * (len / real steps / k))"
    unfolding next_sample ..
  finally show ?case unfolding F_def .
qed

lemma uniform_path_conductivity:
  assumes "\<forall>i < steps. getSoilKAtPoint (Fin 0)
                      (z1 + (Fin (real i) + Fin (5 / 10)) / Fin (real steps) * (z2 - z1)) L = Fin k"
      and "0 < k"
      and "Math_hypot (x2 - x1) (z2 - z1) = Fin len" and "1 / 10 ^ 6 \<le> len"
  shows "getEffectiveKForPath \<lparr>pt_x = x1, pt_z = z1\<rparr> \<lparr>pt_x = x2, pt_z = z2\<rparr> L = Fin k"
proof -
  have "foldl (path_step (Fin len) z1 z2 L) (Fin 0) [0..<steps] = Fin (len / k)"
    using foldl_path_step_uniform [OF assms(1,2), of len 0] by (simp add: steps_def)
  moreover have "len / k \<noteq> 0" "len / (len / k) = k" using assms(2,4) by auto
  ultimately show ?thesis
    using assms(3,4) by (simp add: getEffectiveKForPath_def Let_def)
qed

text \<open>
  The path from the deep source to the point \<open>2\<^sup>-\<^sup>5\<^sup>1\<close> m above the ground runs through the
  one soil layer.
\<close>

lemma deep_path_conductivity:
  "getEffectiveKForPath \<lparr>pt_x = Fin (59 / 16), pt_z = Fin (15 / 4)\<rparr>
      \<lparr>pt_x = Fin 0, pt_z = Fin (- (1 / 2 ^ 51))\<rparr> uniform_soil = Fin (3 / 2)"
proof (rule uniform_path_conductivity)
  show "\<forall>i < steps. getSoilKAtPoint (Fin 0)
          (Fin (15 / 4) + (Fin (real i) + Fin (5 / 10)) / Fin (real steps)
             * (Fin (- (1 / 2 ^ 51)) - Fin (15 / 4))) uniform_soil = Fin (3 / 2)"
  proof (intro allI impI)
    fix i :: nat
    assume "i < steps"
    then have i: "real i \<le> 99" by (simp add: steps_def)
    have "0 \<le> 15 / 4 + (real i + 1 / 2) / 100 * (- (1 / 2 ^ 51) - 15 / 4)"
      using i by (simp add: field_simps)
    moreover have "15 / 4 + (real i + 1 / 2) / 100 * (- (1 / 2 ^ 51) - 15 / 4) < 10"
      using i by (simp add: field_simps)
    ultimately show "getSoilKAtPoint (Fin 0)
          (Fin (15 / 4) + (Fin (real i) + Fin (5 / 10)) / Fin (real steps)
             * (Fin (- (1 / 2 ^ 51)) - Fin (15 / 4))) uniform_soil = Fin (3 / 2)"
      by (simp add: getSoilKAtPoint_def uniform_soil_def steps_def minus_number_def)
  qed
  show "(0 :: real) < 3 / 2" by simp
  show "Math_hypot (Fin 0 - Fin (59 / 16)) (Fin (- (1 / 2 ^ 51)) - Fin (15 / 4))
          = Fin (5921436791245779 / 2 ^ 50)"
    by (simp add: minus_number_def)
  show "(1 :: real) / 10 ^ 6 \<le> 5921436791245779 / 2 ^ 50" by simp
qed

lemma deep_source_geometry:
  "source_geometry (Fin 0) (Fin (- (1 / 2 ^ 51))) uniform_soil deep_source
     = (Fin (5921436791245779 / 2 ^ 50), Fin (5921436791245780 / 2 ^ 50), Fin (3 / 2))"
  using deep_path_conductivity
  by (simp add: source_geometry_def deep_source_def warm_source_def minus_number_def Let_def)

lemma deep_rise_positive:
  "0 < 100 * ln (5921436791245780 / 5921436791245779 :: real) / (3 * pi)"
proof -
  have "0 < ln (5921436791245780 / 5921436791245779 :: real)"
    by (rule ln_gt_zero) simp
  then show ?thesis by simp
qed

text \<open>
  C2 (above the ground, with every source deeper than its outer radius, the evaluator
  returns exactly the soil temperature). As stated this fails just above the ground.
  The evaluator has no test of the sign of the depth: it relies on the image distance
  not exceeding the real distance, and \<^verbatim>\<open>Math.hypot\<close> rounds. For the source 3.75 m deep
  and 3.6875 m across, at \<open>2\<^sup>-\<^sup>5\<^sup>1\<close> m above the ground, the engine's real distance is
  \<open>5921436791245779 / 2\<^sup>5\<^sup>0\<close> (5.259292371602856) and its image distance is one unit in
  the last place more (5.259292371602857), so the source contributes and the result is
  above the soil temperature of 15.
\<close>

theorem above_ground_rise_by_rounding:
  "Fin (- (1 / 2 ^ 51)) < Fin 0
   \<and> scene_pipes deep_scene = [deep_source]
   \<and> Fin 0 \<le> r_bed deep_source \<and> r_bed deep_source < sp_z deep_source
   \<and> is_double (sp_z deep_source)
   \<and> distToCenter (Fin 0) (Fin (- (1 / 2 ^ 51))) deep_source = Fin (5921436791245779 / 2 ^ 50)
   \<and> Math_hypot (Fin 0 - sp_x deep_source) (Fin (- (1 / 2 ^ 51)) + sp_z deep_source)
       = Fin (5921436791245780 / 2 ^ 50)
   \<and> calculateTemperatureAtPoint (Fin 0) (Fin (- (1 / 2 ^ 51))) deep_scene
       = Fin (15 + 100 * ln (5921436791245780 / 5921436791245779) / (3 * pi))
   \<and> T_soil deep_scene = Fin 15
   \<and> Fin (15 + 100 * ln (5921436791245780 / 5921436791245779) / (3 * pi)) \<noteq> Fin 15"
proof -
  have 1: "Fin (- (1 / 2 ^ 51)) < Fin 0
       \<and> scene_pipes deep_scene = [deep_source]
       \<and> Fin 0 \<le> r_bed deep_source \<and> r_bed deep_source < sp_z deep_source
       \<and> is_double (sp_z deep_source)
       \<and> T_soil deep_scene = Fin 15"
    by (simp add: deep_scene_def deep_source_def is_double_def)
  have 2: "distToCenter (Fin 0) (Fin (- (1 / 2 ^ 51))) deep_source = Fin (5921436791245779 / 2 ^ 50)
       \<and> Math_hypot (Fin 0 - sp_x deep_source) (Fin (- (1 / 2 ^ 51)) + sp_z deep_source)
           = Fin (5921436791245780 / 2 ^ 50)"
    by (simp add: distToCenter_def deep_source_def warm_source_def minus_number_def)
  have "inside_pipes (Fin 0) (Fin (- (1 / 2 ^ 51))) (Fin 15) uniform_soil [deep_source] = None"
    using 2 by (simp add: Let_def) (simp add: deep_source_def warm_source_def)
  moreover have "totalTempRise_at (Fin 0) (Fin (- (1 / 2 ^ 51))) uniform_soil [deep_source]
                   = Fin (100 * ln (5921436791245780 / 5921436791245779) / (3 * pi))"
    using deep_source_geometry
    by (simp add: totalTempRise_at_def source_step_def)
       (simp add: deep_source_def warm_source_def Q_asserted_def Math_PI_def)
  ultimately have 3: "calculateTemperatureAtPoint (Fin 0) (Fin (- (1 / 2 ^ 51))) deep_scene
       = Fin (15 + 100 * ln (5921436791245780 / 5921436791245779) / (3 * pi))"
    by (simp add: calculateTemperatureAtPoint_def deep_scene_def)
  have 4: "Fin (15 + 100 * ln (5921436791245780 / 5921436791245779) / (3 * pi)) \<noteq> Fin 15"
    using deep_rise_positive by simp
  from 1 2 3 4 show ?thesis by blast
qed

text \<open>
  C2 as amended. For a query depth below zero and a scene whose pipes all lie deeper than
  their non-negative bedding radius, at a depth that is a double as every number of the
  program is, no pipe answers the point in the first loop, and the evaluator returns
  exactly the soil temperature whenever no source has a computed image distance above
  its computed (clamped) real distance. That is the case whenever, for every source, the
  exact squared image distance times \<open>1 + 2\<^sup>-\<^sup>4\<^sup>8\<close> does not exceed the exact squared real
  distance: the point is above the ground by more than the rounding of \<^verbatim>\<open>Math.hypot\<close>.
  In every case the evaluator returns the soil temperature plus the total rise of its
  second loop (the soil temperature, if that sum is not finite). The scene's pipe list
  holds the affected pipes as well, and the hypothesis on the depths is on all of them.
  Nothing is assumed of the \<open>Q\<close> values, of the soil layers or of \<open>T_soil\<close>.
\<close>

theorem above_ground_soil_temperature:
  assumes "z < Fin 0"
      and "\<forall>p \<in> set (scene_pipes sceneData).
             Fin 0 \<le> r_bed p \<and> r_bed p < sp_z p \<and> is_double (sp_z p)"
  shows "inside_pipes x z (T_soil sceneData) (layers sceneData) (scene_pipes sceneData) = None
       \<and> ((\<forall>s \<in> set (scene_pipes sceneData). isSource s \<and> sp_Q s \<noteq> None \<longrightarrow>
               \<not> Math_max (distToCenter x z s) (r_bed s)
                   < (if sp_orientation s = parallel then Math_hypot (x - sp_x s) (z + sp_z s)
                      else Math_hypot (Fin 0 - sp_y s) (z + sp_z s)))
            \<longrightarrow> calculateTemperatureAtPoint x z sceneData = T_soil sceneData)
       \<and> ((\<forall>s \<in> set (scene_pipes sceneData). isSource s \<and> sp_Q s \<noteq> None \<longrightarrow>
               (let dx = (if sp_orientation s = parallel then x - sp_x s else Fin 0 - sp_y s)
                in (dx * dx + (z + sp_z s) * (z + sp_z s)) * Fin (1 + 1 / 2 ^ 48)
                     \<le> dx * dx + (z - sp_z s) * (z - sp_z s)))
            \<longrightarrow> calculateTemperatureAtPoint x z sceneData = T_soil sceneData)
       \<and> calculateTemperatureAtPoint x z sceneData
           = (let finalTemp' = T_soil sceneData
                                + totalTempRise_at x z (layers sceneData) (scene_pipes sceneData)
              in if Number_isFinite finalTemp' then finalTemp' else T_soil sceneData)"
proof -
  have none: "inside_pipes x z (T_soil sceneData) (layers sceneData) (scene_pipes sceneData) = None"
    using assms by (rule inside_pipes_above_ground)
  have computed: "calculateTemperatureAtPoint x z sceneData = T_soil sceneData"
    if "\<forall>s \<in> set (scene_pipes sceneData). isSource s \<and> sp_Q s \<noteq> None \<longrightarrow>
               \<not> Math_max (distToCenter x z s) (r_bed s)
                   < (if sp_orientation s = parallel then Math_hypot (x - sp_x s) (z + sp_z s)
                      else Math_hypot (Fin 0 - sp_y s) (z + sp_z s))"
    using none that by (rule soil_temperature_when_no_image_farther)
  have exact: "calculateTemperatureAtPoint x z sceneData = T_soil sceneData"
    if m: "\<forall>s \<in> set (scene_pipes sceneData). isSource s \<and> sp_Q s \<noteq> None \<longrightarrow>
               (let dx = (if sp_orientation s = parallel then x - sp_x s else Fin 0 - sp_y s)
                in (dx * dx + (z + sp_z s) * (z + sp_z s)) * Fin (1 + 1 / 2 ^ 48)
                     \<le> dx * dx + (z - sp_z s) * (z - sp_z s))"
  proof (rule computed, intro ballI impI)
    fix s
    assume "s \<in> set (scene_pipes sceneData)" "isSource s \<and> sp_Q s \<noteq> None"
    with m have "let dx = (if sp_orientation s = parallel then x - sp_x s else Fin 0 - sp_y s)
                 in (dx * dx + (z + sp_z s) * (z + sp_z s)) * Fin (1 + 1 / 2 ^ 48)
                      \<le> dx * dx + (z - sp_z s) * (z - sp_z s)"
      by blast
    then show "\<not> Math_max (distToCenter x z s) (r_bed s)
                   < (if sp_orientation s = parallel then Math_hypot (x - sp_x s) (z + sp_z s)
                      else Math_hypot (Fin 0 - sp_y s) (z + sp_z s))"
      by (cases "sp_orientation s = parallel")
         (simp_all add: distToCenter_def Let_def image_not_farther_by_margin)
  qed
  have always: "calculateTemperatureAtPoint x z sceneData
           = (let finalTemp' = T_soil sceneData
                                + totalTempRise_at x z (layers sceneData) (scene_pipes sceneData)
              in if Number_isFinite finalTemp' then finalTemp' else T_soil sceneData)"
    using none by (simp add: calculateTemperatureAtPoint_def Let_def)
  from none computed exact always show ?thesis by blast
qed

theorem above_ground_soil_temperature_witness:
  "Fin (- 1) < Fin 0
   \<and> list_all (\<lambda>p. Fin 0 \<le> r_bed p \<and> r_bed p < sp_z p \<and> is_double (sp_z p))
        (scene_pipes three_depths_scene)
   \<and> list_all
        (\<lambda>s. let dx = (if sp_orientation s = parallel then Fin 2 - sp_x s else Fin 0 - sp_y s)
             in (dx * dx + (Fin (- 1) + sp_z s) * (Fin (- 1) + sp_z s)) * Fin (1 + 1 / 2 ^ 48)
                  \<le> dx * dx + (Fin (- 1) - sp_z s) * (Fin (- 1) - sp_z s))
        (scene_pipes three_depths_scene)
   \<and> list_all
        (\<lambda>s. \<not> Math_max (distToCenter (Fin 2) (Fin (- 1)) s) (r_bed s)
                < (if sp_orientation s = parallel
                   then Math_hypot (Fin 2 - sp_x s) (Fin (- 1) + sp_z s)
                   else Math_hypot (Fin 0 - sp_y s) (Fin (- 1) + sp_z s)))
        (scene_pipes three_depths_scene)
   \<and> map sp_orientation (scene_pipes three_depths_scene) = [parallel, parallel, perpendicular]
   \<and> inside_pipes (Fin 2) (Fin (- 1)) (Fin 15) uniform_soil
         [warm_source, deep_source, deep_crossing] = None
   \<and> calculateTemperatureAtPoint (Fin 2) (Fin (- 1)) three_depths_scene = Fin 15"
proof -
  have h1: "Fin (- 1) < Fin 0" by simp
  have h2: "\<forall>p \<in> set (scene_pipes three_depths_scene).
              Fin 0 \<le> r_bed p \<and> r_bed p < sp_z p \<and> is_double (sp_z p)"
    by (simp add: three_depths_scene_def deep_source_def warm_source_def deep_crossing_def
          steam_crossing_def is_double_def)
  have m: "\<forall>s \<in> set (scene_pipes three_depths_scene).
             (let dx = (if sp_orientation s = parallel then Fin 2 - sp_x s else Fin 0 - sp_y s)
              in (dx * dx + (Fin (- 1) + sp_z s) * (Fin (- 1) + sp_z s)) * Fin (1 + 1 / 2 ^ 48)
                   \<le> dx * dx + (Fin (- 1) - sp_z s) * (Fin (- 1) - sp_z s))"
    by (simp add: three_depths_scene_def deep_source_def warm_source_def deep_crossing_def
          steam_crossing_def minus_number_def)
  have cw: "\<not> Math_max (Math_hypot (Fin 2 - sp_x warm_source) (Fin (- 1) - sp_z warm_source))
                 (r_bed warm_source)
               < Math_hypot (Fin 2 - sp_x warm_source) (Fin (- 1) + sp_z warm_source)"
    by (rule image_not_farther_by_margin) (simp add: warm_source_def minus_number_def)
  have cd: "\<not> Math_max (Math_hypot (Fin 2 - sp_x deep_source) (Fin (- 1) - sp_z deep_source))
                 (r_bed deep_source)
               < Math_hypot (Fin 2 - sp_x deep_source) (Fin (- 1) + sp_z deep_source)"
    by (rule image_not_farther_by_margin)
       (simp add: deep_source_def warm_source_def minus_number_def)
  have cc: "\<not> Math_max (Math_hypot (Fin 0 - sp_y deep_crossing) (Fin (- 1) - sp_z deep_crossing))
                 (r_bed deep_crossing)
               < Math_hypot (Fin 0 - sp_y deep_crossing) (Fin (- 1) + sp_z deep_crossing)"
    by (rule image_not_farther_by_margin)
       (simp add: deep_crossing_def steam_crossing_def minus_number_def)
  have o: "map sp_orientation (scene_pipes three_depths_scene) = [parallel, parallel, perpendicular]"
    by (simp add: three_depths_scene_def deep_source_def warm_source_def deep_crossing_def
          steam_crossing_def)
  have c: "\<forall>s \<in> set (scene_pipes three_depths_scene).
             \<not> Math_max (distToCenter (Fin 2) (Fin (- 1)) s) (r_bed s)
                 < (if sp_orientation s = parallel
                    then Math_hypot (Fin 2 - sp_x s) (Fin (- 1) + sp_z s)
                    else Math_hypot (Fin 0 - sp_y s) (Fin (- 1) + sp_z s))"
    using cw cd cc
    by (simp add: three_depths_scene_def distToCenter_def)
       (simp add: deep_source_def warm_source_def deep_crossing_def steam_crossing_def)
  note A = above_ground_soil_temperature [OF h1 h2, of "Fin 2"]
  have r: "calculateTemperatureAtPoint (Fin 2) (Fin (- 1)) three_depths_scene = Fin 15"
    using A m by (simp add: three_depths_scene_def)
  have i: "inside_pipes (Fin 2) (Fin (- 1)) (Fin 15) uniform_soil
             [warm_source, deep_source, deep_crossing] = None"
    using A by (simp add: three_depths_scene_def)
  have "list_all (\<lambda>p. Fin 0 \<le> r_bed p \<and> r_bed p < sp_z p \<and> is_double (sp_z p))
          (scene_pipes three_depths_scene)"
    using h2 unfolding list_all_iff .
  moreover have "list_all
        (\<lambda>s. let dx = (if sp_orientation s = parallel then Fin 2 - sp_x s else Fin 0 - sp_y s)
             in (dx * dx + (Fin (- 1) + sp_z s) * (Fin (- 1) + sp_z s)) * Fin (1 + 1 / 2 ^ 48)
                  \<le> dx * dx + (Fin (- 1) - sp_z s) * (Fin (- 1) - sp_z s))
        (scene_pipes three_depths_scene)"
    using m unfolding list_all_iff .
  moreover have "list_all
        (\<lambda>s. \<not> Math_max (distToCenter (Fin 2) (Fin (- 1)) s) (r_bed s)
                < (if sp_orientation s = parallel
                   then Math_hypot (Fin 2 - sp_x s) (Fin (- 1) + sp_z s)
                   else Math_hypot (Fin 0 - sp_y s) (Fin (- 1) + sp_z s)))
        (scene_pipes three_depths_scene)"
    using c unfolding list_all_iff .
  ultimately show ?thesis
    using h1 o i r by blast
qed

subsection \<open>Resistance solver\<close>

lemma le_zero_not_pos: "a \<le> Fin 0 \<Longrightarrow> \<not> Fin 0 < a"
  by (cases a) simp_all

text \<open>
  C4 (the four series resistances, each cylindrical layer 0 when its conductivity is zero
  or its inner radius is non-positive, and \<open>Q\<close>). As stated this fails for the
  insulation and bedding layers, whose inner radius the code does not test: with a blank
  outer diameter the inner radius of the insulation is 0, the claim gives resistance 0,
  and the code divides by that radius and returns an infinite resistance.
\<close>

theorem insulation_resistance_infinite_at_zero_od:
  "od zero_od_pipe / Fin 2 \<le> Fin 0
   \<and> layer_resistance (k_ins zero_od_pipe) (od zero_od_pipe / Fin 2 + ins_thickness zero_od_pipe)
        (od zero_od_pipe / Fin 2) = Fin 0
   \<and> R_ins (sourceCalc uniform_soil (Fin 15) zero_od_pipe) = PInf"
  by (simp add: zero_od_pipe_def insulated_pipe_def layer_resistance_def sourceCalc_def Let_def
        Math_PI_def)

text \<open>
  C4 as amended: \<open>R_total\<close> is the sum of the four resistances; the pipe-wall resistance
  is the specification's layer formula (0 unless conductivity and inner radius are
  positive); the insulation and bedding resistances are \<open>ln (r_outer / r_inner) / (2 pi k)\<close>
  when the conductivity is positive and 0 otherwise, which is the specification's layer
  formula whenever the layer's inner radius is positive; the soil resistance is
  \<open>ln (2 z / r_bed_outer) / (2 pi k_eff)\<close> when \<open>k_eff\<close> is positive and 0 otherwise; and
  \<open>Q = (T_pipe - T_soil) / R_total\<close> when \<open>R_total\<close> is positive, 0 otherwise, so 0
  whenever \<open>R_total \<le> 0\<close>; for finite temperatures \<open>Q\<close> is finite, whatever the
  resistances are.
\<close>

theorem sourceCalc_series_resistances:
  "let sc = sourceCalc soilLayers T_soil_C pipe;
       r_pipe_outer = od pipe / Fin 2;
       r_pipe_inner = r_pipe_outer - thickness pipe;
       r_ins_outer = r_pipe_outer + ins_thickness pipe;
       r_bed_outer = r_ins_outer + bed_thickness pipe;
       k_eff_soil = getEffectiveSoilKForPipe (partial_of pipe) soilLayers
   in R_total sc = R_pipe sc + R_ins sc + R_bed sc + R_soil sc
    \<and> R_pipe sc = layer_resistance (k_pipe pipe) r_pipe_outer r_pipe_inner
    \<and> R_ins sc = (if Fin 0 < k_ins pipe
                   then Math_log (r_ins_outer / r_pipe_outer) / (Fin 2 * Math_PI * k_ins pipe)
                   else Fin 0)
    \<and> (Fin 0 < r_pipe_outer \<longrightarrow> R_ins sc = layer_resistance (k_ins pipe) r_ins_outer r_pipe_outer)
    \<and> R_bed sc = (if Fin 0 < k_bedding pipe
                   then Math_log (r_bed_outer / r_ins_outer) / (Fin 2 * Math_PI * k_bedding pipe)
                   else Fin 0)
    \<and> (Fin 0 < r_ins_outer \<longrightarrow> R_bed sc = layer_resistance (k_bedding pipe) r_bed_outer r_ins_outer)
    \<and> R_soil sc = (if Fin 0 < k_eff_soil
                    then Math_log ((Fin 2 * pipe_z pipe) / r_bed_outer) / (Fin 2 * Math_PI * k_eff_soil)
                    else Fin 0)
    \<and> sc_Q sc = (if Fin 0 < R_total sc then (temp_asserted pipe - T_soil_C) / R_total sc
                  else Fin 0)
    \<and> (R_total sc \<le> Fin 0 \<longrightarrow> sc_Q sc = Fin 0)
    \<and> (Number_isFinite (temp_asserted pipe) \<and> Number_isFinite T_soil_C
         \<longrightarrow> Number_isFinite (sc_Q sc))"
proof -
  define sc where "sc = sourceCalc soilLayers T_soil_C pipe"
  have total: "R_total sc = R_pipe sc + R_ins sc + R_bed sc + R_soil sc"
    by (simp add: sc_def sourceCalc_def Let_def)
  have layers: "R_pipe sc = layer_resistance (k_pipe pipe) (od pipe / Fin 2)
                              (od pipe / Fin 2 - thickness pipe)"
    "R_ins sc = (if Fin 0 < k_ins pipe
                 then Math_log ((od pipe / Fin 2 + ins_thickness pipe) / (od pipe / Fin 2))
                        / (Fin 2 * Math_PI * k_ins pipe)
                 else Fin 0)"
    "R_bed sc = (if Fin 0 < k_bedding pipe
                 then Math_log ((od pipe / Fin 2 + ins_thickness pipe + bed_thickness pipe)
                                 / (od pipe / Fin 2 + ins_thickness pipe))
                        / (Fin 2 * Math_PI * k_bedding pipe)
                 else Fin 0)"
    "R_soil sc = (if Fin 0 < getEffectiveSoilKForPipe (partial_of pipe) soilLayers
                  then Math_log ((Fin 2 * pipe_z pipe)
                                  / (od pipe / Fin 2 + ins_thickness pipe + bed_thickness pipe))
                         / (Fin 2 * Math_PI * getEffectiveSoilKForPipe (partial_of pipe) soilLayers)
                  else Fin 0)"
    by (simp_all add: sc_def sourceCalc_def layer_resistance_def Let_def)
  have flux: "sc_Q sc = (if Fin 0 < R_total sc then (temp_asserted pipe - T_soil_C) / R_total sc
                         else Fin 0)"
    by (simp add: sc_def sourceCalc_def Let_def)
  have degenerate: "sc_Q sc = Fin 0" if "R_total sc \<le> Fin 0"
    using that flux by (simp add: le_zero_not_pos)
  have finite_flux: "Number_isFinite (sc_Q sc)"
    if "Number_isFinite (temp_asserted pipe)" "Number_isFinite T_soil_C"
    using that flux
    by (cases "temp_asserted pipe"; cases T_soil_C; cases "R_total sc")
       (simp_all add: minus_number_def)
  show ?thesis
    unfolding Let_def sc_def [symmetric]
    using total layers flux degenerate finite_flux
    by (simp add: layer_resistance_def)
qed

theorem sourceCalc_series_resistances_witness:
  "Fin 0 < od insulated_pipe / Fin 2
   \<and> Fin 0 < od insulated_pipe / Fin 2 + ins_thickness insulated_pipe
   \<and> R_ins (sourceCalc uniform_soil (Fin 15) insulated_pipe)
       = layer_resistance (k_ins insulated_pipe)
           (od insulated_pipe / Fin 2 + ins_thickness insulated_pipe) (od insulated_pipe / Fin 2)
   \<and> R_bed (sourceCalc uniform_soil (Fin 15) insulated_pipe)
       = layer_resistance (k_bedding insulated_pipe)
           (od insulated_pipe / Fin 2 + ins_thickness insulated_pipe + bed_thickness insulated_pipe)
           (od insulated_pipe / Fin 2 + ins_thickness insulated_pipe)
   \<and> R_total (sourceCalc unset_soil (Fin 15) unset_materials_pipe) \<le> Fin 0
   \<and> sc_Q (sourceCalc unset_soil (Fin 15) unset_materials_pipe) = Fin 0
   \<and> Number_isFinite (temp_asserted insulated_pipe) \<and> Number_isFinite (Fin 15)
   \<and> Number_isFinite (sc_Q (sourceCalc uniform_soil (Fin 15) insulated_pipe))"
proof -
  note A = sourceCalc_series_resistances [of uniform_soil "Fin 15" insulated_pipe, unfolded Let_def]
  note B = sourceCalc_series_resistances [of unset_soil "Fin 15" unset_materials_pipe, unfolded Let_def]
  have a1: "Fin 0 < od insulated_pipe / Fin 2"
    by (simp add: insulated_pipe_def)
  have a2: "Fin 0 < od insulated_pipe / Fin 2 + ins_thickness insulated_pipe"
    by (simp add: insulated_pipe_def)
  have "R_total (sourceCalc unset_soil (Fin 15) unset_materials_pipe) = Fin 0"
    by (simp add: sourceCalc_def unset_materials_pipe_def insulated_pipe_def unset_soil_def
          getEffectiveSoilKForPipe_def partial_of_def opt_or_zero_def or_else_def Let_def
          minus_number_def)
  then have t: "R_total (sourceCalc unset_soil (Fin 15) unset_materials_pipe) \<le> Fin 0"
    by simp
  have f: "Number_isFinite (temp_asserted insulated_pipe) \<and> Number_isFinite (Fin 15)"
    by (simp add: temp_asserted_def insulated_pipe_def)
  show ?thesis
    using A B a1 a2 t f by blast
qed

subsection \<open>The rise contributed by one source\<close>















subsection \<open>Superposition\<close>


lemma ln_6_bound: "100 * ln 6 / (3 * pi) < (105 :: real)"
proof -
  have a: "ln (6 :: real) < 6" by simp
  have b: "(2 :: real) \<le> pi" by (rule pi_ge_two)
  have "100 * ln 6 < 105 * (3 * pi)" using a b by linarith
  moreover have "0 < 3 * pi" by simp
  ultimately show ?thesis by (simp add: pos_divide_less_eq)
qed

lemma hypot_gt_first:
  assumes "rb < round_double \<bar>d\<bar>"
  shows "\<not> Math_hypot (Fin d) (Fin a) \<le> Fin rb"
proof -
  have "round_double \<bar>d\<bar> \<le> round_double (max \<bar>d\<bar> \<bar>a\<bar>)"
    by (intro round_double_mono) simp_all
  also have "\<dots> \<le> hypot_double d a" by (rule hypot_double_ge_max)
  finally show ?thesis using assms by simp
qed

















lemma inside_pipes_skip:
  assumes "\<forall>q \<in> set pre. \<not> answers x z q"
  shows "inside_pipes x z T L (pre @ rest) = inside_pipes x z T L rest"
  using assms by (induction pre) (auto simp: answers_def Let_def)

lemma inside_pipes_cases:
  assumes "inside_pipes x z T L pipes = Some v"
  shows "\<exists>p \<in> set pipes. distToCenter x z p \<le> r_bed p
           \<and> (distToCenter x z p \<le> r_pipe p \<and> v = sp_temp p
              \<or> \<not> distToCenter x z p \<le> r_pipe p \<and> isSource p \<and> Q_truthy p
                 \<and> v = surface_temperature T L p)"
  using assms by (induction pipes) (auto simp: Let_def split: if_splits)












subsection \<open>Field evaluator: inside a pipe\<close>

text \<open>
  C10 (a query point within the bare radius of a pipe gets that pipe's stored
  temperature, the first such pipe in list order). As stated this fails where
  footprints overlap: the steam line crosses inside the bedding of the hot-water line,
  which is first in the list; on the steam line's centerline, outside the hot-water
  line's bare radius, the evaluator returns the surface temperature of the hot-water
  line, \<open>15 + 100 ln 6 / (3 pi)\<close>, not the steam line's 200.
\<close>

theorem annulus_of_earlier_source_wins:
  "distToCenter (Fin 0) (Fin (19 / 10)) steam_crossing \<le> r_pipe steam_crossing
   \<and> \<not> distToCenter (Fin 0) (Fin (19 / 10)) warm_source \<le> r_pipe warm_source
   \<and> calculateTemperatureAtPoint (Fin 0) (Fin (19 / 10)) crossing_scene
       = Fin (15 + 100 * ln 6 / (3 * pi))
   \<and> sp_temp steam_crossing = Fin 200
   \<and> Fin (15 + 100 * ln 6 / (3 * pi)) \<noteq> Fin 200"
proof -
  have 1: "distToCenter (Fin 0) (Fin (19 / 10)) steam_crossing \<le> r_pipe steam_crossing
       \<and> \<not> distToCenter (Fin 0) (Fin (19 / 10)) warm_source \<le> r_pipe warm_source
       \<and> sp_temp steam_crossing = Fin 200"
    by (simp add: distToCenter_def warm_source_def steam_crossing_def minus_number_def
          hypot_vertical del: Math_hypot.simps)
  have 2: "calculateTemperatureAtPoint (Fin 0) (Fin (19 / 10)) crossing_scene
       = Fin (15 + 100 * ln 6 / (3 * pi))"
    by (simp add: calculateTemperatureAtPoint_def crossing_scene_def distToCenter_def
          warm_source_def steam_crossing_def minus_number_def hypot_vertical Q_truthy_def Let_def
          del: Math_hypot.simps)
       (simp add: surface_temperature_def getEffectiveSoilKForPipe_def uniform_soil_def
          opt_or_zero_def or_else_def minus_number_def Q_asserted_def Math_PI_def)
  have 3: "Fin (15 + 100 * ln 6 / (3 * pi)) \<noteq> Fin 200"
    using ln_6_bound by simp
  from 1 2 3 show ?thesis by blast
qed

lemma Q_truthy_iff:
  "Q_truthy p \<longleftrightarrow> (\<exists>q. sp_Q p = Some q \<and> q \<noteq> Fin 0 \<and> q \<noteq> NaN)"
proof (cases "sp_Q p")
  case None
  then show ?thesis by (simp add: Q_truthy_def)
next
  case (Some q)
  then show ?thesis by (cases q) (simp_all add: Q_truthy_def)
qed

text \<open>
  C10 as amended. If the query point is within the bare radius and the bedding radius of
  a pipe, and no earlier pipe of the list answers it (none has it within its bedding
  radius and either within its bare radius or, being a source, a truthy \<open>Q\<close>), the
  evaluator returns that pipe's stored temperature. Whenever the first loop returns, it
  returns for a pipe whose bedding radius holds the point: the stored temperature if the
  bare radius holds it, and otherwise the surface temperature, only for a source whose
  \<open>Q\<close> is present, non-zero and not \<open>NaN\<close>.
\<close>

theorem bare_pipe_returns_stored_temperature:
  assumes "scene_pipes sceneData = pre @ p # post"
      and "\<forall>q \<in> set pre. \<not> answers x z q"
      and "distToCenter x z p \<le> r_pipe p"
      and "distToCenter x z p \<le> r_bed p"
  shows "calculateTemperatureAtPoint x z sceneData = sp_temp p
       \<and> (\<forall>v. inside_pipes x' z' T layers' pipes = Some v \<longrightarrow>
            (\<exists>q \<in> set pipes. distToCenter x' z' q \<le> r_bed q
               \<and> (distToCenter x' z' q \<le> r_pipe q \<and> v = sp_temp q
                  \<or> \<not> distToCenter x' z' q \<le> r_pipe q \<and> isSource q
                     \<and> (\<exists>Q. sp_Q q = Some Q \<and> Q \<noteq> Fin 0 \<and> Q \<noteq> NaN)
                     \<and> v = surface_temperature T layers' q)))"
proof -
  have "inside_pipes x z (T_soil sceneData) (layers sceneData) (scene_pipes sceneData)
          = inside_pipes x z (T_soil sceneData) (layers sceneData) (p # post)"
    using assms(1) inside_pipes_skip [OF assms(2)] by simp
  also have "\<dots> = Some (sp_temp p)"
    using assms(3,4) by (simp add: Let_def)
  finally have 1: "calculateTemperatureAtPoint x z sceneData = sp_temp p"
    by (simp add: calculateTemperatureAtPoint_def Let_def)
  show ?thesis
    using 1 inside_pipes_cases [of x' z' T layers' pipes] Q_truthy_iff by blast
qed

theorem bare_pipe_returns_stored_temperature_witness:
  "scene_pipes crossing_scene = [warm_source] @ steam_crossing # []
   \<and> list_all (\<lambda>q. \<not> answers (Fin 3) (Fin (19 / 10)) q) [warm_source]
   \<and> distToCenter (Fin 3) (Fin (19 / 10)) steam_crossing \<le> r_pipe steam_crossing
   \<and> distToCenter (Fin 3) (Fin (19 / 10)) steam_crossing \<le> r_bed steam_crossing
   \<and> calculateTemperatureAtPoint (Fin 3) (Fin (19 / 10)) crossing_scene = Fin 200
   \<and> inside_pipes (Fin 0) (Fin (19 / 10)) (Fin 15) uniform_soil [warm_source, steam_crossing]
       = Some (surface_temperature (Fin 15) uniform_soil warm_source)
   \<and> sp_Q warm_source = Some (Fin 100)"
proof -
  have h1: "scene_pipes crossing_scene = [warm_source] @ steam_crossing # []"
    by (simp add: crossing_scene_def)
  have "\<not> Math_hypot (Fin 3) (Fin (2 / 5)) \<le> Fin (1 / 2)"
    by (rule hypot_gt_first) simp
  then have h2: "\<forall>q \<in> set [warm_source]. \<not> answers (Fin 3) (Fin (19 / 10)) q"
    by (simp add: answers_def distToCenter_def warm_source_def minus_number_def
          del: Math_hypot.simps)
  have h3: "distToCenter (Fin 3) (Fin (19 / 10)) steam_crossing \<le> r_pipe steam_crossing"
    by (simp add: distToCenter_def steam_crossing_def minus_number_def hypot_vertical
          del: Math_hypot.simps)
  have h4: "distToCenter (Fin 3) (Fin (19 / 10)) steam_crossing \<le> r_bed steam_crossing"
    by (simp add: distToCenter_def steam_crossing_def minus_number_def hypot_vertical
          del: Math_hypot.simps)
  have i: "inside_pipes (Fin 0) (Fin (19 / 10)) (Fin 15) uniform_soil [warm_source, steam_crossing]
       = Some (surface_temperature (Fin 15) uniform_soil warm_source)"
    by (simp add: distToCenter_def warm_source_def minus_number_def hypot_vertical Q_truthy_def
          Let_def del: Math_hypot.simps)
  have q: "sp_Q warm_source = Some (Fin 100)"
    by (simp add: warm_source_def)
  show ?thesis
    using h1 h2 h3 h4 i q
      bare_pipe_returns_stored_temperature [OF h1 h2 h3 h4]
    by (simp add: steam_crossing_def)
qed

subsection \<open>Marching cubes\<close>

lemma triTable_5: "triTable ! 5 = [0, 8, 3, - 1, 1, 2, 0, - 1, - 1, - 1, - 1, - 1, - 1, - 1, - 1, - 1]"
  by (simp add: triTable_def)

lemma edgeTable_5: "edgeTable ! 5 = 1295"
  by (simp add: edgeTable_def)

lemma cubes_2: "cubes (2, 2, 2) = [(0, 0, 0)]"
  by (simp add: cubes_def)

lemma cubeindex_5:
  "cubeindex_of [Fin 0, Fin 1, Fin 0, Fin 1, Fin 1, Fin 1, Fin 1, Fin 1] (Fin (1 / 2)) = 5"
  by (simp add: cubeindex_of_def Let_def)

lemma corner_values_5:
  "map (\<lambda>(a, b, c). getVal [Fin 0, Fin 1, Fin 1, Fin 0, Fin 1, Fin 1, Fin 1, Fin 1] (2, 2, 2) a b c)
     (corners 0 0 0)
   = [Fin 0, Fin 1, Fin 0, Fin 1, Fin 1, Fin 1, Fin 1, Fin 1]"
  by (simp add: getVal_def corners_def)

text \<open>
  Every row of the triangle table has \<open>-1\<close> at index 0 or at index 3, so the triangle
  loop exits after at most one triangle: \<^verbatim>\<open>run\<close> always returns, with at most one
  triangle for each cube.
\<close>

lemma triLoop_stop:
  assumes "i < length row" "row ! i = - 1"
  shows "triLoop row vl i vs = Some vs"
  using assms by (subst triLoop.simps) simp

lemma triLoop_step:
  assumes "i < length row" "row ! i \<noteq> - 1"
  shows "\<exists>vs1. triLoop row vl i vs = triLoop row vl (i + 3) vs1 \<and> length vs1 \<le> length vs + 3"
  using assms by (subst triLoop.simps) (auto simp: Let_def split: option.splits)

lemma triLoop_stops_early:
  assumes "3 < length row" "row ! 0 = - 1 \<or> row ! 3 = - 1"
  shows "\<exists>vs'. triLoop row vl 0 vs = Some vs' \<and> length vs' \<le> length vs + 3"
proof (cases "row ! 0 = - 1")
  have p: "0 < length row" using assms(1) by (cases row) simp_all
  {
    case True
    with p have "triLoop row vl 0 vs = Some vs" by (intro triLoop_stop)
    then show ?thesis by simp
  next
    case False
    then have 3: "row ! 3 = - 1" using assms(2) by simp
    from triLoop_step [OF p False, of vl vs]
    obtain vs1 where 1: "triLoop row vl 0 vs = triLoop row vl (0 + 3) vs1"
        and l: "length vs1 \<le> length vs + 3"
      by blast
    have "triLoop row vl (0 + 3) vs1 = Some vs1"
      using 3 assms(1) by (intro triLoop_stop) simp_all
    with 1 l show ?thesis by simp
  }
qed

lemma triTable_rows_stop_early:
  "list_all (\<lambda>row. 3 < length row \<and> (row ! 0 = - 1 \<or> row ! 3 = - 1)) triTable"
  unfolding triTable_def by simp

lemma triTable_length: "length triTable = 312"
  by (simp add: triTable_def)

lemma cubeindex_bound: "cubeindex_of v isolevel < 256"
  by (simp add: cubeindex_of_def Let_def)

lemma cube_at_most_one_triangle:
  "\<exists>vs'. cube data dims isolevel pos vs = Some vs' \<and> length vs' \<le> length vs + 3"
proof -
  obtain x y z where pos: "pos = (x, y, z)" by (cases pos) auto
  define v where "v = map (\<lambda>(a, b, c). getVal data dims a b c) (corners x y z)"
  define c where "c = cubeindex_of v isolevel"
  have "c < 256" unfolding c_def by (rule cubeindex_bound)
  then have "c < length triTable" by (simp add: triTable_length)
  then have "triTable ! c \<in> set triTable" by (rule nth_mem)
  then have "3 < length (triTable ! c) \<and> (triTable ! c ! 0 = - 1 \<or> triTable ! c ! 3 = - 1)"
    using triTable_rows_stop_early unfolding list_all_iff by blast
  then have t: "\<exists>vs'. triLoop (triTable ! c) vl 0 vs = Some vs' \<and> length vs' \<le> length vs + 3" for vl
    using triLoop_stops_early by blast
  have "cube data dims isolevel pos vs
          = (if edgeTable ! c = 0 then Some vs
             else triLoop (triTable ! c)
                    (vertlist_of (edgeTable ! c) isolevel (map lattice (corners x y z)) v) 0 vs)"
    unfolding cube_def pos c_def v_def Let_def by simp
  then show ?thesis
    using t [of "vertlist_of (edgeTable ! c) isolevel (map lattice (corners x y z)) v"]
    by (cases "edgeTable ! c = 0") simp_all
qed

lemma run_from_at_most_one_triangle_per_cube:
  "\<exists>vs'. run_from data dims isolevel cells vs = Some vs'
         \<and> length vs' \<le> length vs + 3 * length cells"
proof (induction cells arbitrary: vs)
  case Nil
  then show ?case by simp
next
  case (Cons pos cells)
  obtain vs1 where 1: "cube data dims isolevel pos vs = Some vs1"
      and l1: "length vs1 \<le> length vs + 3"
    using cube_at_most_one_triangle by blast
  obtain vs2 where 2: "run_from data dims isolevel cells vs1 = Some vs2"
      and l2: "length vs2 \<le> length vs1 + 3 * length cells"
    using Cons by blast
  from 1 2 l1 l2 show ?case by simp
qed

lemma run_at_most_one_triangle_per_cube:
  "\<exists>vs. run data dims isolevel = Some vs \<and> length vs \<le> 3 * length (cubes dims)"
  using run_from_at_most_one_triangle_per_cube [of data dims isolevel "cubes dims" "[]"]
  by (simp add: run_def)

text \<open>
  C1 (the extractor emits every triangle the triangle table lists for the cube's
  configuration, up to five per cube). The code does not: on the single cube of a
  2 x 2 x 2 lattice whose corners 0 and 2 are below the isovalue (configuration 5, edge
  table entry \<open>0x50f\<close>), row 5 of the triangle table lists the two triangles
  \<open>(0, 8, 3)\<close> and \<open>(1, 2, 0)\<close>, each followed by \<open>-1\<close>; the loop advances by three and
  stops at the first \<open>-1\<close> it meets, so \<^verbatim>\<open>run\<close> returns the first triangle only.
\<close>

theorem run_emits_first_listed_triangle_only:
  "run [Fin 0, Fin 1, Fin 1, Fin 0, Fin 1, Fin 1, Fin 1, Fin 1] (2, 2, 2) (Fin (1 / 2))
     = Some [(Fin 0, Fin (1 / 2), Fin 0), (Fin 0, Fin 0, Fin (1 / 2)), (Fin (1 / 2), Fin 0, Fin 0)]
   \<and> triTable ! 5 = [0, 8, 3, - 1, 1, 2, 0, - 1, - 1, - 1, - 1, - 1, - 1, - 1, - 1, - 1]
   \<and> length triTable = 312"
proof -
  have "run [Fin 0, Fin 1, Fin 1, Fin 0, Fin 1, Fin 1, Fin 1, Fin 1] (2, 2, 2) (Fin (1 / 2))
     = triLoop (triTable ! 5)
         (vertlist_of 1295 (Fin (1 / 2)) (map lattice (corners 0 0 0))
            [Fin 0, Fin 1, Fin 0, Fin 1, Fin 1, Fin 1, Fin 1, Fin 1]) 0 []"
    by (simp add: run_def cubes_2 cube_def corner_values_5 cubeindex_5 edgeTable_5
          split: option.split)
  also have "\<dots> = Some [(Fin 0, Fin (1 / 2), Fin 0), (Fin 0, Fin 0, Fin (1 / 2)),
                         (Fin (1 / 2), Fin 0, Fin 0)]"
    by (simp add: triTable_5 triLoop.simps vertlist_of_def Let_def corners_def lattice_def
          vertexInterp_def vec_x_def vec_y_def vec_z_def minus_number_def vert_at_def row_at_def)
  finally show ?thesis
    by (simp add: triTable_5) (simp add: triTable_def)
qed

text \<open>
  C9 (the vertex interpolator never returns a non-finite vertex). For a first corner
  with finite coordinates the returned vertex is finite, whatever the isovalue, the
  second corner and the two corner values are (\<open>NaN\<close> and the infinities included);
  corner values closer than \<open>1e-9\<close> give the first corner back, and so does an
  interpolated point with a coordinate that is not finite.
\<close>

theorem vertexInterp_finite:
  assumes "finite_vec p1"
  shows "finite_vec (vertexInterp isolevel p1 p2 valp1 valp2)
       \<and> (Math_abs (valp2 - valp1) < Fin (1 / 10 ^ 9) \<longrightarrow>
            vertexInterp isolevel p1 p2 valp1 valp2 = p1)
       \<and> (\<not> finite_vec
               (let mu = (isolevel - valp1) / (valp2 - valp1)
                in (vec_x p1 + mu * (vec_x p2 - vec_x p1),
                    vec_y p1 + mu * (vec_y p2 - vec_y p1),
                    vec_z p1 + mu * (vec_z p2 - vec_z p1))) \<longrightarrow>
            vertexInterp isolevel p1 p2 valp1 valp2 = p1)"
  using assms
  by (auto simp: vertexInterp_def finite_vec_def vec_x_def vec_y_def vec_z_def Let_def)

theorem vertexInterp_finite_witness:
  "finite_vec (Fin 0, Fin 0, Fin 0)
   \<and> Math_abs (Fin 0 - Fin 0) < Fin (1 / 10 ^ 9)
   \<and> \<not> finite_vec
        (let mu = (Fin (1 / 2) - Fin 0) / (Fin 0 - Fin 0)
         in (vec_x (Fin 0, Fin 0, Fin 0) + mu * (vec_x (Fin 1, Fin 0, Fin 0) - vec_x (Fin 0, Fin 0, Fin 0)),
             vec_y (Fin 0, Fin 0, Fin 0) + mu * (vec_y (Fin 1, Fin 0, Fin 0) - vec_y (Fin 0, Fin 0, Fin 0)),
             vec_z (Fin 0, Fin 0, Fin 0) + mu * (vec_z (Fin 1, Fin 0, Fin 0) - vec_z (Fin 0, Fin 0, Fin 0))))
   \<and> vertexInterp (Fin (1 / 2)) (Fin 0, Fin 0, Fin 0) (Fin 1, Fin 0, Fin 0) (Fin 0) (Fin 0)
       = (Fin 0, Fin 0, Fin 0)
   \<and> finite_vec (vertexInterp (Fin (1 / 2)) (Fin 0, Fin 0, Fin 0) (Fin 1, Fin 0, Fin 0) (Fin 0) (Fin 0))"
proof -
  have h: "finite_vec (Fin 0, Fin 0, Fin 0)"
    by (simp add: finite_vec_def vec_x_def vec_y_def vec_z_def)
  show ?thesis
    using h
      vertexInterp_finite [OF h, of "Fin (1 / 2)" "(Fin 1, Fin 0, Fin 0)" "Fin 0" "Fin 0"]
    by (simp add: finite_vec_def vec_x_def vec_y_def vec_z_def minus_number_def Let_def)
qed

end
